theory Spec2Isabelle
  imports Complex_Main "HOL-Library.Word" "HOL-Library.Sublist"
begin

unbundle bit_operations_syntax


section \<open>Python values shared by the services\<close>

text \<open>
  The services under \<^verbatim>\<open>backend/app/services\<close> are embedded function by function.
  A Python \<^verbatim>\<open>int\<close> is an \<^typ>\<open>int\<close>, a \<^verbatim>\<open>str\<close> a \<^typ>\<open>string\<close> whose characters are
  the code points below 256.  An exception that a function lets escape is the \<open>Inl\<close>
  branch of its result.
\<close>

datatype py_error =
    ValueError
  | AttributeError
  | ZeroDivisionError
  | IntegrityError
  | RuntimeError
  | OverflowError

text \<open>
  Rounding a real to the nearest integer, a tie going to the even one: what
  \<^verbatim>\<open>round(x)\<close> does to the value of a finite float, and what binary floating point does to
  a significand.
\<close>

definition py_round :: "real \<Rightarrow> int" where
  "py_round x =
     (let f = \<lfloor>x\<rfloor>; d = x - of_int f
      in if d < 1 / 2 then f
         else if 1 / 2 < d then f + 1
         else if even f then f else f + 1)"

section \<open>Python floats: IEEE 754 binary64\<close>

text \<open>
  A float is a finite value, an infinity or NaN.  \<open>Fin r\<close> may hold any real; every float
  that the code computes or writes as a literal is \<open>rnd64\<close> of the exact value, which is
  always a binary64 number.  The sign of a zero is not kept: no function below tells
  \<^verbatim>\<open>-0.0\<close> from \<^verbatim>\<open>0.0\<close>.
\<close>

datatype pyfloat = Fin real | PInf | NInf | NaN

definition pow2 :: "int \<Rightarrow> real" where
  "pow2 e = (if 0 \<le> e then 2 ^ nat e else 1 / 2 ^ nat (- e))"

text \<open>The exponent \<open>e\<close> with \<open>2^e \<le> |x| < 2^(e+1)\<close>.\<close>

definition binade :: "real \<Rightarrow> int" where
  "binade x = \<lfloor>log 2 \<bar>x\<bar>\<rfloor>"

text \<open>
  Round to nearest, ties to even, with 53 significant bits, the smallest exponent
  \<open>-1022\<close> (below it the spacing stays \<open>2^-1074\<close>) and overflow to an infinity from
  \<open>2^1024\<close> on.
\<close>

definition rnd64 :: "real \<Rightarrow> pyfloat" where
  "rnd64 x =
     (if x = 0 then Fin 0
      else
        let q = max (binade x) (- 1022) - 52;
            r = of_int (py_round (x / pow2 q)) * pow2 q
        in if 2 ^ 1024 \<le> \<bar>r\<bar> then (if 0 < x then PInf else NInf) else Fin r)"

text \<open>\<^verbatim>\<open>x + y\<close>, \<^verbatim>\<open>x * y\<close> and \<^verbatim>\<open>x < y\<close> on floats.\<close>

fun fl_add :: "pyfloat \<Rightarrow> pyfloat \<Rightarrow> pyfloat" where
  "fl_add NaN y = NaN"
| "fl_add x NaN = NaN"
| "fl_add (Fin a) (Fin b) = rnd64 (a + b)"
| "fl_add PInf NInf = NaN"
| "fl_add NInf PInf = NaN"
| "fl_add PInf y = PInf"
| "fl_add NInf y = NInf"
| "fl_add (Fin a) y = y"

fun fl_mul :: "pyfloat \<Rightarrow> pyfloat \<Rightarrow> pyfloat" where
  "fl_mul NaN y = NaN"
| "fl_mul x NaN = NaN"
| "fl_mul (Fin a) (Fin b) = rnd64 (a * b)"
| "fl_mul (Fin a) PInf = (if a = 0 then NaN else if 0 < a then PInf else NInf)"
| "fl_mul (Fin a) NInf = (if a = 0 then NaN else if 0 < a then NInf else PInf)"
| "fl_mul PInf (Fin b) = (if b = 0 then NaN else if 0 < b then PInf else NInf)"
| "fl_mul NInf (Fin b) = (if b = 0 then NaN else if 0 < b then NInf else PInf)"
| "fl_mul PInf PInf = PInf"
| "fl_mul NInf NInf = PInf"
| "fl_mul PInf NInf = NInf"
| "fl_mul NInf PInf = NInf"

fun fl_less :: "pyfloat \<Rightarrow> pyfloat \<Rightarrow> bool" where
  "fl_less NaN y = False"
| "fl_less x NaN = False"
| "fl_less (Fin a) (Fin b) = (a < b)"
| "fl_less NInf NInf = False"
| "fl_less NInf y = True"
| "fl_less x PInf = (x \<noteq> PInf)"
| "fl_less x y = False"

text \<open>The truth value of a float: only a zero is falsy.\<close>

definition fl_truthy :: "pyfloat \<Rightarrow> bool" where
  "fl_truthy x = (x \<noteq> Fin 0)"

text \<open>
  \<^verbatim>\<open>round(x)\<close> of a float, which raises \<^verbatim>\<open>ValueError\<close> on NaN and \<^verbatim>\<open>OverflowError\<close>
  on an infinity; \<^verbatim>\<open>int(x)\<close> raises the same and truncates towards zero.
\<close>

definition py_round_float :: "pyfloat \<Rightarrow> py_error + int" where
  "py_round_float x =
     (case x of
        Fin r \<Rightarrow> Inr (py_round r)
      | NaN \<Rightarrow> Inl ValueError
      | _ \<Rightarrow> Inl OverflowError)"

definition py_int_of_float :: "pyfloat \<Rightarrow> py_error + int" where
  "py_int_of_float x =
     (case x of
        Fin r \<Rightarrow> Inr (if 0 \<le> r then \<lfloor>r\<rfloor> else \<lceil>r\<rceil>)
      | NaN \<Rightarrow> Inl ValueError
      | _ \<Rightarrow> Inl OverflowError)"

text \<open>\<^verbatim>\<open>float(x or 0.0)\<close>: a zero is falsy and replaced by \<^verbatim>\<open>0.0\<close>.\<close>

definition float_or_zero :: "pyfloat \<Rightarrow> pyfloat" where
  "float_or_zero x = (if fl_truthy x then x else Fin 0)"

section \<open>scoring\_engine.py: the final score\<close>

text \<open>
  The pair of statements \<^verbatim>\<open>if s < 0.0: s = 0.0\<close> and \<^verbatim>\<open>if s > 1.0: s = 1.0\<close>, which
  \<^verbatim>\<open>compute_final_score\<close> writes out for each of its five arguments.
\<close>

definition clamp_unit :: "pyfloat \<Rightarrow> pyfloat" where
  "clamp_unit s =
     (let s1 = (if fl_less s (Fin 0) then Fin 0 else s)
      in if fl_less (Fin 1) s1 then Fin 1 else s1)"

text \<open>
  The weights are the float literals \<^verbatim>\<open>0.10\<close>, \<^verbatim>\<open>0.20\<close>, \<^verbatim>\<open>0.15\<close>, \<^verbatim>\<open>0.45\<close>, the sum is
  formed from left to right, and \<^verbatim>\<open>round\<close> may raise.
\<close>

definition compute_final_score ::
  "pyfloat \<Rightarrow> pyfloat \<Rightarrow> pyfloat \<Rightarrow> pyfloat \<Rightarrow> pyfloat \<Rightarrow> py_error + int" where
  "compute_final_score semantic_score skills_score experience_score education_score
       ai_reasoning_score =
     (let semantic_score = clamp_unit (float_or_zero semantic_score);
          skills_score = clamp_unit (float_or_zero skills_score);
          experience_score = clamp_unit (float_or_zero experience_score);
          education_score = clamp_unit (float_or_zero education_score);
          ai_reasoning_score = clamp_unit (float_or_zero ai_reasoning_score);
          val = fl_mul (Fin 100)
                  (fl_add
                     (fl_add
                        (fl_add
                           (fl_add (fl_mul (rnd64 (10 / 100)) semantic_score)
                                   (fl_mul (rnd64 (20 / 100)) skills_score))
                           (fl_mul (rnd64 (15 / 100)) experience_score))
                        (fl_mul (rnd64 (10 / 100)) education_score))
                     (fl_mul (rnd64 (45 / 100)) ai_reasoning_score))
      in case py_round_float val of
           Inl e \<Rightarrow> Inl e
         | Inr out \<Rightarrow> Inr (if out < 0 then 0 else if 100 < out then 100 else out))"

text \<open>
  The specification's wording of the same function, over the reals, for comparison: a
  component cut to the unit interval (an infinity to the nearer end), and the weighted
  sum in the order in which the specification writes it.
\<close>

definition spec_clamp_unit :: "pyfloat \<Rightarrow> real" where
  "spec_clamp_unit x = (case x of Fin r \<Rightarrow> max 0 (min 1 r) | PInf \<Rightarrow> 1 | NInf \<Rightarrow> 0 | NaN \<Rightarrow> 0)"

definition spec_weighted_sum :: "real \<Rightarrow> real \<Rightarrow> real \<Rightarrow> real \<Rightarrow> real \<Rightarrow> real" where
  "spec_weighted_sum semantic skills experience education ai_reasoning =
     0.45 * ai_reasoning + 0.20 * skills + 0.15 * experience + 0.10 * education + 0.10 * semantic"

section \<open>scoring\_engine.py: skills overlap\<close>

text \<open>
  \<^verbatim>\<open>rs = set(resume_skills or [])\<close> is a set: \<^verbatim>\<open>len(rs)\<close> counts distinct tokens.
  \<^verbatim>\<open>js\<close>, \<^verbatim>\<open>matched\<close> and \<^verbatim>\<open>missing\<close> are lists.  Both divisors are
  \<^verbatim>\<open>max(1, ...)\<close>, and the last division stands under \<^verbatim>\<open>precision + recall > 0\<close>.
\<close>

definition skills_overlap_score :: "string list \<Rightarrow> string list \<Rightarrow> real \<times> string list \<times> string list" where
  "skills_overlap_score resume_skills job_skills =
     (let rs = set resume_skills; js = job_skills
      in if js = [] then (0, [], [])
         else
           let matched = filter (\<lambda>j. j \<in> rs) js;
               missing = filter (\<lambda>j. j \<notin> rs) js;
               recall = real (length matched) / real (max 1 (length js));
               precision = (if rs \<noteq> {} then real (length matched) / real (max 1 (card rs)) else 0);
               score = (if precision + recall \<le> 0 then 0
                        else (2 * precision * recall) / (precision + recall));
               score = (if score < 0 then 0 else score);
               score = (if 1 < score then 1 else score)
           in (score, take 12 matched, take 8 missing))"

text \<open>
  The harmonic mean of precision and recall as the specification words it: \<open>0\<close> when both
  are \<open>0\<close>.
\<close>

definition f1_harmonic_mean :: "real \<Rightarrow> real \<Rightarrow> real" where
  "f1_harmonic_mean p r = (if p = 0 \<and> r = 0 then 0 else 2 * p * r / (p + r))"

section \<open>semantic\_similarity.py: cosine similarity\<close>

text \<open>A float division raises \<^verbatim>\<open>ZeroDivisionError\<close> on a zero divisor.\<close>

definition py_truediv :: "real \<Rightarrow> real \<Rightarrow> py_error + real" where
  "py_truediv x y = (if y = 0 then Inl ZeroDivisionError else Inr (x / y))"

text \<open>One pass of the loop \<^verbatim>\<open>for x, y in zip(a, b)\<close> over the three accumulators.\<close>

definition cosine_step :: "real \<times> real \<Rightarrow> real \<times> real \<times> real \<Rightarrow> real \<times> real \<times> real" where
  "cosine_step xy acc =
     (case xy of (x, y) \<Rightarrow> case acc of (dot, na, nb) \<Rightarrow> (dot + x * y, na + x * x, nb + y * y))"

definition cosine_similarity :: "real list \<Rightarrow> real list \<Rightarrow> py_error + real" where
  "cosine_similarity a b =
     (if a = [] \<or> b = [] then Inr 0
      else if length a \<noteq> length b then Inr 0
      else
        case fold cosine_step (zip a b) (0, 0, 0) of
          (dot, na, nb) \<Rightarrow>
            if na \<le> 0 \<or> nb \<le> 0 then Inr 0
            else py_truediv dot (sqrt na * sqrt nb))"

section \<open>hashlib: SHA-256 hex digests\<close>

text \<open>
  \<^verbatim>\<open>hashlib.sha256(s.encode()).hexdigest()\<close> is library code; it is written out
  here (the SHA-256 of FIPS 180-4 over the UTF-8 bytes of the string) so that cache keys
  can be computed.  A 32-bit word is an integer in \<open>0 .. 2^32 - 1\<close>, addition wraps
  modulo \<open>2^32\<close>.
\<close>

definition add32 :: "int \<Rightarrow> int \<Rightarrow> int" where
  "add32 x y = (x + y) mod 4294967296"

definition rotr32 :: "nat \<Rightarrow> int \<Rightarrow> int" where
  "rotr32 n x = x div 2 ^ n + (x mod 2 ^ n) * 2 ^ (32 - n)"

definition big_sigma0 :: "int \<Rightarrow> int" where
  "big_sigma0 x = rotr32 2 x XOR rotr32 13 x XOR rotr32 22 x"
definition big_sigma1 :: "int \<Rightarrow> int" where
  "big_sigma1 x = rotr32 6 x XOR rotr32 11 x XOR rotr32 25 x"
definition small_sigma0 :: "int \<Rightarrow> int" where
  "small_sigma0 x = rotr32 7 x XOR rotr32 18 x XOR x div 2 ^ 3"
definition small_sigma1 :: "int \<Rightarrow> int" where
  "small_sigma1 x = rotr32 17 x XOR rotr32 19 x XOR x div 2 ^ 10"
definition sha_ch :: "int \<Rightarrow> int \<Rightarrow> int \<Rightarrow> int" where
  "sha_ch e f g = (e AND f) XOR ((4294967295 - e) AND g)"
definition sha_maj :: "int \<Rightarrow> int \<Rightarrow> int \<Rightarrow> int" where
  "sha_maj a b c = (a AND b) XOR (a AND c) XOR (b AND c)"

definition sha256_k :: "int list" where
  "sha256_k =
     [1116352408, 1899447441, 3049323471, 3921009573, 961987163, 1508970993,
      2453635748, 2870763221, 3624381080, 310598401, 607225278, 1426881987,
      1925078388, 2162078206, 2614888103, 3248222580, 3835390401, 4022224774,
      264347078, 604807628, 770255983, 1249150122, 1555081692, 1996064986,
      2554220882, 2821834349, 2952996808, 3210313671, 3336571891, 3584528711,
      113926993, 338241895, 666307205, 773529912, 1294757372, 1396182291,
      1695183700, 1986661051, 2177026350, 2456956037, 2730485921, 2820302411,
      3259730800, 3345764771, 3516065817, 3600352804, 4094571909, 275423344,
      430227734, 506948616, 659060556, 883997877, 958139571, 1322822218,
      1537002063, 1747873779, 1955562222, 2024104815, 2227730452, 2361852424,
      2428436474, 2756734187, 3204031479, 3329325298]"

definition sha256_init :: "int list" where
  "sha256_init = [1779033703, 3144134277, 1013904242, 2773480762, 1359893119, 2600822924, 528734635, 1541459225]"

text \<open>The sixteen-word window of the message schedule: its head is the word of the
  current round, and each round appends the word sixteen rounds ahead.\<close>

fun advance :: "int list \<Rightarrow> int list" where
  "advance [w0, w1, w2, w3, w4, w5, w6, w7, w8, w9, w10, w11, w12, w13, w14, w15] =
     [w1, w2, w3, w4, w5, w6, w7, w8, w9, w10, w11, w12, w13, w14, w15,
      add32 (add32 (small_sigma1 w14) w9) (add32 (small_sigma0 w1) w0)]"
| "advance ws = ws"

definition round_out :: "int \<Rightarrow> int \<Rightarrow> int list \<Rightarrow> int list" where
  "round_out t1 t2 s = (case s of [a, b, c, d, e, f, g, h] \<Rightarrow> [add32 t1 t2, a, b, c, add32 d t1, e, f, g] | _ \<Rightarrow> s)"

fun round_step :: "int \<Rightarrow> int \<Rightarrow> int list \<Rightarrow> int list" where
  "round_step k w [a, b, c, d, e, f, g, h] =
     round_out (add32 (add32 (add32 h (big_sigma1 e)) (add32 (sha_ch e f g) k)) w)
               (add32 (big_sigma0 a) (sha_maj a b c))
               [a, b, c, d, e, f, g, h]"
| "round_step k w s = s"

fun rounds :: "int list \<Rightarrow> int list \<Rightarrow> int list \<Rightarrow> int list" where
  "rounds [] win s = s"
| "rounds (k # ks) win s = rounds ks (advance win) (round_step k (hd win) s)"

definition compress :: "int list \<Rightarrow> int list \<Rightarrow> int list" where
  "compress block hs = map2 add32 hs (rounds sha256_k block hs)"

fun be_words :: "int list \<Rightarrow> int list" where
  "be_words (b0 # b1 # b2 # b3 # bs) = (b0 * 16777216 + b1 * 65536 + b2 * 256 + b3) # be_words bs"
| "be_words bs = []"

definition be_bytes8 :: "int \<Rightarrow> int list" where
  "be_bytes8 n = map (\<lambda>i. (n div 256 ^ i) mod 256) [7, 6, 5, 4, 3, 2, 1, 0::nat]"

definition pad :: "int list \<Rightarrow> int list" where
  "pad msg = msg @ [128] @ replicate ((119 - length msg mod 64) mod 64) 0 @ be_bytes8 (8 * int (length msg))"

fun sha256_blocks :: "int list \<Rightarrow> int list \<Rightarrow> int list" where
  "sha256_blocks (w0 # w1 # w2 # w3 # w4 # w5 # w6 # w7 # w8 # w9 # w10 # w11 # w12 # w13 # w14 # w15 # ws) hs =
     sha256_blocks ws (compress [w0, w1, w2, w3, w4, w5, w6, w7, w8, w9, w10, w11, w12, w13, w14, w15] hs)"
| "sha256_blocks ws hs = hs"

definition sha256 :: "int list \<Rightarrow> int list" where
  "sha256 msg = sha256_blocks (be_words (pad msg)) sha256_init"

definition hex_digit :: "int \<Rightarrow> char" where
  "hex_digit d = ''0123456789abcdef'' ! nat d"

definition hex_word :: "int \<Rightarrow> string" where
  "hex_word w = map (\<lambda>i. hex_digit ((w div 16 ^ i) mod 16)) [7, 6, 5, 4, 3, 2, 1, 0::nat]"

definition utf8_char :: "char \<Rightarrow> int list" where
  "utf8_char c = (let n = of_char c :: int in if n < 128 then [n] else [192 + n div 64, 128 + n mod 64])"

definition utf8_encode :: "string \<Rightarrow> int list" where
  "utf8_encode s = concat (map utf8_char s)"

definition sha256_hexdigest :: "string \<Rightarrow> string" where
  "sha256_hexdigest s = concat (map hex_word (sha256 (utf8_encode s)))"

section \<open>ai\_match\_cache.py\<close>

text \<open>\<^verbatim>\<open>str(n)\<close> for an integer, as the f-string \<^verbatim>\<open>f"{job_id}"\<close> formats it.\<close>

definition digit_char :: "nat \<Rightarrow> char" where
  "digit_char d = ''0123456789'' ! d"

function nat_digits :: "nat \<Rightarrow> string" where
  "nat_digits n = (if n < 10 then [digit_char n] else nat_digits (n div 10) @ [digit_char (n mod 10)])"
  by pat_completeness auto
termination
  by (relation "measure id") auto

declare nat_digits.simps [simp del]

definition py_str_int :: "int \<Rightarrow> string" where
  "py_str_int i = (if i < 0 then CHR ''-'' # nat_digits (nat (- i)) else nat_digits (nat i))"

text \<open>\<^verbatim>\<open>x or default\<close> for an optional string: \<^verbatim>\<open>None\<close> and \<^verbatim>\<open>""\<close> are falsy.\<close>

definition str_or :: "string option \<Rightarrow> string \<Rightarrow> string" where
  "str_or x d = (case x of None \<Rightarrow> d | Some s \<Rightarrow> if s = [] then d else s)"

text \<open>
  \<^verbatim>\<open>_generate_cache_key\<close> (an Isabelle name cannot start with an underscore).  The first
  argument is the configuration constant \<^verbatim>\<open>GEMINI_MODEL\<close>, read from the environment.
\<close>

definition generate_cache_key ::
  "string \<Rightarrow> int option \<Rightarrow> int option \<Rightarrow> string option \<Rightarrow> string option \<Rightarrow> string option
     \<Rightarrow> py_error + string" where
  "generate_cache_key GEMINI_MODEL job_id resume_id job_text resume_text model_version =
     (let model_version = str_or model_version GEMINI_MODEL
      in case (job_id, resume_id) of
           (Some j, Some r) \<Rightarrow>
             Inr (sha256_hexdigest (py_str_int j @ '':'' @ py_str_int r @ '':'' @ model_version))
         | _ \<Rightarrow>
             (case (job_text, resume_text) of
                (Some jt, Some rt) \<Rightarrow>
                  (let job_hash = take 32 (sha256_hexdigest (str_or (Some jt) []));
                       resume_hash = take 32 (sha256_hexdigest (str_or (Some rt) []))
                   in Inr (sha256_hexdigest (job_hash @ '':'' @ resume_hash @ '':'' @ model_version)))
              | _ \<Rightarrow> Inl ValueError))"

text \<open>
  A JSON value as \<^verbatim>\<open>json.loads\<close> returns it and \<^verbatim>\<open>json.dumps\<close> takes it; an
  object keeps its pairs in order, a later pair with the same key being shadowed by
  \<open>map_of\<close> reading the first (the parsers below are passed in and decide which pair
  they keep).
\<close>

datatype json =
    JNull
  | JBool bool
  | JInt int
  | JFloat pyfloat
  | JStr string
  | JArr "json list"
  | JObj "(string \<times> json) list"

text \<open>
  The table \<^verbatim>\<open>ai_match_cache\<close> of \<^verbatim>\<open>models/ai_match_cache.py\<close>.  \<^verbatim>\<open>job_id\<close> and
  \<^verbatim>\<open>resume_id\<close> are declared \<^verbatim>\<open>nullable=False\<close>.  The database is the list of its
  rows, in insertion order; a query never fails.
\<close>

record ai_match_cache_row =
  amc_id :: nat
  amc_cache_key :: string
  amc_job_id :: int
  amc_resume_id :: int
  amc_model_version :: string
  amc_match_result_json :: string
  amc_match_score :: "int option"
  amc_api_latency_ms :: "int option"
  amc_created_at :: nat
  amc_expires_at :: "nat option"

type_synonym cache_db = "ai_match_cache_row list"

text \<open>\<^verbatim>\<open>db.query(AIMatchCache).filter(AIMatchCache.cache_key == cache_key).first()\<close>\<close>

definition query_cache_first :: "cache_db \<Rightarrow> string \<Rightarrow> ai_match_cache_row option" where
  "query_cache_first db cache_key = find (\<lambda>r. amc_cache_key r = cache_key) db"

text \<open>The primary key of a new row.\<close>

definition next_cache_id :: "cache_db \<Rightarrow> nat" where
  "next_cache_id db = Suc (fold max (map amc_id db) 0)"

text \<open>
  \<^verbatim>\<open>int(match_result.get("score", 0)) if isinstance(match_result.get("score"), (int, float))
  else None\<close>; a \<^verbatim>\<open>bool\<close> is an \<^verbatim>\<open>int\<close> in Python, and \<^verbatim>\<open>int\<close> of a float
  truncates towards zero and raises on NaN and on an infinity.
\<close>

definition match_score_of :: "(string \<times> json) list \<Rightarrow> py_error + int option" where
  "match_score_of match_result =
     (case map_of match_result ''score'' of
        Some (JInt i) \<Rightarrow> Inr (Some i)
      | Some (JBool b) \<Rightarrow> Inr (Some (if b then 1 else 0))
      | Some (JFloat f) \<Rightarrow>
          (case py_int_of_float f of Inl e \<Rightarrow> Inl e | Inr i \<Rightarrow> Inr (Some i))
      | _ \<Rightarrow> Inr None)"

text \<open>
  What an \<^verbatim>\<open>Integer\<close> column holds: a signed 64-bit value (SQLite, the database the
  configuration defaults to).  Binding a larger Python \<^verbatim>\<open>int\<close> raises.
\<close>

definition fits_db_integer :: "int \<Rightarrow> bool" where
  "fits_db_integer i = (- (2 ^ 63) \<le> i \<and> i < 2 ^ 63)"

definition opt_fits_db_integer :: "int option \<Rightarrow> bool" where
  "opt_fits_db_integer x = (case x of None \<Rightarrow> True | Some i \<Rightarrow> fits_db_integer i)"

text \<open>
  \<^verbatim>\<open>cache_match_result\<close>.  Its first arguments are \<^verbatim>\<open>json.dumps\<close>, the constant
  \<^verbatim>\<open>GEMINI_MODEL\<close> and the server's clock (for \<^verbatim>\<open>created_at\<close>); the result is the
  returned flag and the database after the call.  A key that cannot be generated
  (\<^verbatim>\<open>ValueError\<close>) returns \<^verbatim>\<open>False\<close>.  Everything after it stands in one \<^verbatim>\<open>try\<close>:
  when building the row raises (the score cannot be converted) or the insert fails
  (a row without \<^verbatim>\<open>job_id\<close> or \<^verbatim>\<open>resume_id\<close>, an integer outside the column's range),
  the exception is caught, the session rolled back and \<^verbatim>\<open>False\<close> returned, with
  nothing stored.
\<close>

definition cache_match_result ::
  "(json \<Rightarrow> string) \<Rightarrow> string \<Rightarrow> nat \<Rightarrow> cache_db \<Rightarrow> (string \<times> json) list
     \<Rightarrow> int option \<Rightarrow> int option \<Rightarrow> string option \<Rightarrow> string option \<Rightarrow> int option
     \<Rightarrow> string option \<Rightarrow> bool \<times> cache_db" where
  "cache_match_result dumps GEMINI_MODEL now db match_result job_id resume_id job_text
       resume_text api_latency_ms model_version =
     (case generate_cache_key GEMINI_MODEL job_id resume_id job_text resume_text model_version of
        Inl e \<Rightarrow> (False, db)
      | Inr cache_key \<Rightarrow>
          (let model_version = str_or model_version GEMINI_MODEL;
               existing = query_cache_first db cache_key
           in if existing \<noteq> None then (True, db)
              else
                (case match_score_of match_result of
                   Inl e \<Rightarrow> (False, db)
                 | Inr match_score \<Rightarrow>
                     (case (job_id, resume_id) of
                        (Some j, Some r) \<Rightarrow>
                          (if fits_db_integer j \<and> fits_db_integer r
                              \<and> opt_fits_db_integer match_score
                              \<and> opt_fits_db_integer api_latency_ms
                           then (True,
                                 db @ [\<lparr>amc_id = next_cache_id db,
                                        amc_cache_key = cache_key,
                                        amc_job_id = j,
                                        amc_resume_id = r,
                                        amc_model_version = model_version,
                                        amc_match_result_json = dumps (JObj match_result),
                                        amc_match_score = match_score,
                                        amc_api_latency_ms = api_latency_ms,
                                        amc_created_at = now,
                                        amc_expires_at = None\<rparr>])
                           else (False, db))
                      | _ \<Rightarrow> (False, db)))))"

section \<open>Python string operations\<close>

text \<open>
  \<^verbatim>\<open>str.isspace\<close> on the code points below 256; \<^verbatim>\<open>\s\<close> of a \<^verbatim>\<open>str\<close> pattern matches the
  same characters.
\<close>

definition py_isspace :: "char \<Rightarrow> bool" where
  "py_isspace c = ((of_char c :: nat) \<in> {9, 10, 11, 12, 13, 28, 29, 30, 31, 32, 133, 160})"

text \<open>\<^verbatim>\<open>s.strip()\<close> and \<^verbatim>\<open>s.strip(chars)\<close>.\<close>

definition strip_where :: "(char \<Rightarrow> bool) \<Rightarrow> string \<Rightarrow> string" where
  "strip_where P s = rev (dropWhile P (rev (dropWhile P s)))"

definition py_strip :: "string \<Rightarrow> string" where
  "py_strip s = strip_where py_isspace s"

definition py_strip_chars :: "string \<Rightarrow> string \<Rightarrow> string" where
  "py_strip_chars chars s = strip_where (\<lambda>c. c \<in> set chars) s"

text \<open>
  \<^verbatim>\<open>re.sub(r"[class]{n,}", repl, s)\<close> for a character class: every maximal run of
  characters of the class that has at least \<open>n\<close> characters is replaced by \<open>repl\<close>
  (the match is greedy, and a shorter run matches nowhere).
\<close>

function re_sub_runs :: "nat \<Rightarrow> (char \<Rightarrow> bool) \<Rightarrow> string \<Rightarrow> string \<Rightarrow> string" where
  "re_sub_runs n P repl [] = []"
| "re_sub_runs n P repl (c # cs) =
     (if P c
      then (let run = c # takeWhile P cs
            in (if n \<le> length run then repl else run) @ re_sub_runs n P repl (dropWhile P cs))
      else c # re_sub_runs n P repl cs)"
  by pat_completeness auto
termination
  by (relation "measure (\<lambda>(n, P, repl, s). length s)")
     (auto simp: length_dropWhile_le less_Suc_eq_le)

section \<open>embeddings.py\<close>

text \<open>\<^verbatim>\<open>normalize_text\<close>: \<^verbatim>\<open>(text or "").strip()\<close>, then \<^verbatim>\<open>\s+\<close> replaced by one space.\<close>

definition normalize_text :: "string \<Rightarrow> string" where
  "normalize_text text = re_sub_runs 1 py_isspace '' '' (py_strip text)"

text \<open>\<^verbatim>\<open>text_hash\<close>: the digest of \<^verbatim>\<open>f"{model}\n{text}"\<close>.\<close>

definition text_hash :: "string \<Rightarrow> string \<Rightarrow> string" where
  "text_hash text model = sha256_hexdigest (model @ [CHR 0x0A] @ text)"

text \<open>
  \<^verbatim>\<open>embed_text\<close>.  The embedder (\<^verbatim>\<open>_get_embedder()\<close> followed by \<^verbatim>\<open>embed\<close>, library
  code that may raise) is an argument, as is the flag \<^verbatim>\<open>EMBEDDINGS_ENABLED\<close>.
\<close>

definition embed_text :: "bool \<Rightarrow> (string \<Rightarrow> py_error + real list) \<Rightarrow> string \<Rightarrow> py_error + real list" where
  "embed_text EMBEDDINGS_ENABLED embedder text =
     (if \<not> EMBEDDINGS_ENABLED then Inr []
      else let t = normalize_text text
           in if t = [] then Inr [] else embedder t)"

text \<open>
  The table \<^verbatim>\<open>embeddings\<close> of \<^verbatim>\<open>models/embedding.py\<close>, with its unique constraint on
  entity type, entity id, model and text hash.
\<close>

record embedding_row =
  emb_id :: nat
  emb_entity_type :: string
  emb_entity_id :: int
  emb_model :: string
  emb_dim :: nat
  emb_text_hash :: string
  emb_vector_json :: string
  emb_created_at :: nat
  emb_updated_at :: nat

type_synonym embedding_db = "embedding_row list"

definition emb_key :: "embedding_row \<Rightarrow> string \<times> int \<times> string" where
  "emb_key r = (emb_entity_type r, emb_entity_id r, emb_model r)"

text \<open>
  The query \<^verbatim>\<open>filter(entity_type, entity_id, model).order_by(updated_at.desc()).first()\<close>;
  among rows updated at the same time the earliest in the table is taken.
\<close>

definition newer_row :: "embedding_row \<Rightarrow> embedding_row \<Rightarrow> embedding_row" where
  "newer_row r best = (if emb_updated_at best < emb_updated_at r then r else best)"

definition latest_embedding :: "embedding_db \<Rightarrow> string \<Rightarrow> int \<Rightarrow> string \<Rightarrow> embedding_row option" where
  "latest_embedding db entity_type entity_id model =
     (case filter (\<lambda>r. emb_key r = (entity_type, entity_id, model)) db of
        [] \<Rightarrow> None
      | r # rs \<Rightarrow> Some (fold newer_row rs r))"

definition next_embedding_id :: "embedding_db \<Rightarrow> nat" where
  "next_embedding_id db = Suc (fold max (map emb_id db) 0)"

text \<open>Whether another row already holds the unique key that row \<open>r\<close> is about to take.\<close>

definition unique_violation :: "embedding_db \<Rightarrow> embedding_row \<Rightarrow> bool" where
  "unique_violation db r =
     (\<exists>x \<in> set db. emb_id x \<noteq> emb_id r \<and> emb_key x = emb_key r
                    \<and> emb_text_hash x = emb_text_hash r)"

text \<open>
  \<^verbatim>\<open>get_or_create_embedding\<close>.  The arguments before the database are the two
  configuration constants, the embedder, \<^verbatim>\<open>json.dumps\<close> and the server's clock.  The
  result is the returned row (or \<^verbatim>\<open>None\<close>) with the database after the call; an
  exception of the embedder or of the commit is not caught by the function.
\<close>

definition get_or_create_embedding ::
  "bool \<Rightarrow> string \<Rightarrow> (string \<Rightarrow> py_error + real list) \<Rightarrow> (json \<Rightarrow> string) \<Rightarrow> nat
     \<Rightarrow> embedding_db \<Rightarrow> string \<Rightarrow> int \<Rightarrow> string \<Rightarrow> string option
     \<Rightarrow> py_error + (embedding_row option \<times> embedding_db)" where
  "get_or_create_embedding EMBEDDINGS_ENABLED EMBEDDINGS_MODEL embedder dumps now db
       entity_type entity_id text model =
     (if \<not> EMBEDDINGS_ENABLED then Inr (None, db)
      else
        let model_name = str_or model EMBEDDINGS_MODEL;
            norm = normalize_text text
        in if norm = [] then Inr (None, db)
           else
             let h = text_hash norm model_name;
                 row = latest_embedding db entity_type entity_id model_name
             in if (case row of
                      Some r \<Rightarrow> emb_text_hash r = h \<and> emb_vector_json r \<noteq> []
                    | None \<Rightarrow> False)
                then Inr (row, db)
                else
                  (case embed_text EMBEDDINGS_ENABLED embedder norm of
                     Inl e \<Rightarrow> Inl e
                   | Inr vector \<Rightarrow>
                       (if vector = [] then Inr (None, db)
                        else
                          (let payload = dumps (JArr (map (\<lambda>x. JFloat (Fin x)) vector));
                               dim = length vector
                           in (case row of
                                 Some r \<Rightarrow>
                                   (let r' = r\<lparr>emb_text_hash := h, emb_vector_json := payload,
                                                 emb_dim := dim, emb_updated_at := now\<rparr>
                                    in (if unique_violation db r' then Inl IntegrityError
                                        else Inr (Some r',
                                               map (\<lambda>x. if emb_id x = emb_id r then r' else x) db)))
                               | None \<Rightarrow>
                                   (let r' = \<lparr>emb_id = next_embedding_id db,
                                               emb_entity_type = entity_type,
                                               emb_entity_id = entity_id,
                                               emb_model = model_name,
                                               emb_dim = dim,
                                               emb_text_hash = h,
                                               emb_vector_json = payload,
                                               emb_created_at = now,
                                               emb_updated_at = now\<rparr>
                                    in Inr (Some r', db @ [r'])))))))"

section \<open>Character classes and case\<close>

definition is_ascii_upper :: "char \<Rightarrow> bool" where
  "is_ascii_upper c = (65 \<le> (of_char c :: nat) \<and> (of_char c :: nat) \<le> 90)"

definition is_ascii_lower :: "char \<Rightarrow> bool" where
  "is_ascii_lower c = (97 \<le> (of_char c :: nat) \<and> (of_char c :: nat) \<le> 122)"

definition is_ascii_digit :: "char \<Rightarrow> bool" where
  "is_ascii_digit c = (48 \<le> (of_char c :: nat) \<and> (of_char c :: nat) \<le> 57)"

definition is_ascii_alpha :: "char \<Rightarrow> bool" where
  "is_ascii_alpha c = (is_ascii_upper c \<or> is_ascii_lower c)"

text \<open>The class \<^verbatim>\<open>[A-Za-z0-9+#.]\<close> of the word patterns.\<close>

definition is_word_char :: "char \<Rightarrow> bool" where
  "is_word_char c =
     (is_ascii_alpha c \<or> is_ascii_digit c \<or> c = CHR ''+'' \<or> c = CHR ''#'' \<or> c = CHR ''.'')"

text \<open>
  \<^verbatim>\<open>str.lower\<close> on the code points below 256: the ASCII capitals and the Latin-1
  capitals (192 to 222 without the multiplication sign 215) move up by 32.
\<close>

definition lower_char :: "char \<Rightarrow> char" where
  "lower_char c =
     (let n = (of_char c :: nat)
      in if (65 \<le> n \<and> n \<le> 90) \<or> (192 \<le> n \<and> n \<le> 222 \<and> n \<noteq> 215)
         then char_of (n + 32) else c)"

definition py_lower :: "string \<Rightarrow> string" where
  "py_lower s = map lower_char s"

text \<open>
  \<^verbatim>\<open>str.upper\<close>, \<^verbatim>\<open>str.isupper\<close>, \<^verbatim>\<open>str.isalpha\<close> and \<^verbatim>\<open>str.capitalize\<close>, which
  \<^verbatim>\<open>normalize_skills\<close> applies only to strings of the characters
  \<^verbatim>\<open>[A-Za-z0-9+#. ]\<close>; they are given for ASCII letters.
\<close>

definition upper_char :: "char \<Rightarrow> char" where
  "upper_char c = (if is_ascii_lower c then char_of ((of_char c :: nat) - 32) else c)"

definition py_upper :: "string \<Rightarrow> string" where
  "py_upper s = map upper_char s"

definition py_isupper :: "string \<Rightarrow> bool" where
  "py_isupper s = (list_ex is_ascii_upper s \<and> \<not> list_ex is_ascii_lower s)"

definition py_isalpha :: "string \<Rightarrow> bool" where
  "py_isalpha s = (s \<noteq> [] \<and> list_all is_ascii_alpha s)"

definition py_capitalize :: "string \<Rightarrow> string" where
  "py_capitalize s = (case s of [] \<Rightarrow> [] | c # cs \<Rightarrow> upper_char c # py_lower cs)"

text \<open>\<^verbatim>\<open>s.split(sep)\<close> for a one-character separator, and \<^verbatim>\<open>sep.join(words)\<close>.\<close>

fun py_split :: "char \<Rightarrow> string \<Rightarrow> string list" where
  "py_split sep [] = [[]]"
| "py_split sep (c # cs) =
     (if c = sep then [] # py_split sep cs
      else (case py_split sep cs of
              [] \<Rightarrow> [[c]]
            | w # ws \<Rightarrow> (c # w) # ws))"

fun py_join :: "string \<Rightarrow> string list \<Rightarrow> string" where
  "py_join sep [] = []"
| "py_join sep [w] = w"
| "py_join sep (w # ws) = w @ sep @ py_join sep ws"

section \<open>resume\_parsing.py: skill normalisation\<close>

text \<open>\<^verbatim>\<open>s.replace("\r\n", "\n").replace("\r", "\n")\<close>\<close>

fun replace_crlf :: "string \<Rightarrow> string" where
  "replace_crlf (c # d # cs) =
     (if c = CHR 0x0D \<and> d = CHR 0x0A then CHR 0x0A # replace_crlf cs
      else c # replace_crlf (d # cs))"
| "replace_crlf cs = cs"

definition replace_cr :: "string \<Rightarrow> string" where
  "replace_cr s = map (\<lambda>c. if c = CHR 0x0D then CHR 0x0A else c) s"

text \<open>\<^verbatim>\<open>_LINE_CLEAN_RE = [\t ]{2,}\<close>\<close>

definition is_tab_or_space :: "char \<Rightarrow> bool" where
  "is_tab_or_space c = (c = CHR 0x09 \<or> c = CHR '' '')"

definition normalize_line :: "string \<Rightarrow> string" where
  "normalize_line s = py_strip (re_sub_runs 2 is_tab_or_space '' '' (replace_cr (replace_crlf s)))"

text \<open>
  The first half of the loop body of \<^verbatim>\<open>normalize_skills\<close>, up to the length filter:
  \<open>None\<close> stands for \<^verbatim>\<open>continue\<close>.  The bullet U+2022, the third character that the source strips
  beside the space and the hyphen, lies outside the modelled code points.
\<close>

definition clean_skill :: "string \<Rightarrow> string option" where
  "clean_skill raw =
     (let s = normalize_line raw;
          s = py_strip (py_strip_chars '' -'' s)
      in if s = [] then None
         else
           let s = py_strip (re_sub_runs 1 (\<lambda>c. \<not> (is_word_char c \<or> c = CHR '' '')) '' '' s);
               s = re_sub_runs 2 is_tab_or_space '' '' s
           in if length s < 2 \<or> 40 < length s then None else Some s)"

text \<open>
  \<^verbatim>\<open>re.match(r"^[A-Za-z]{1,6}\d+(\.\d+)?$", s)\<close> on a string without a newline: the
  letters, the digits and the optional fraction are each the longest run, since the
  classes are disjoint.
\<close>

definition version_like :: "string \<Rightarrow> bool" where
  "version_like s =
     (let letters = takeWhile is_ascii_alpha s;
          rest = dropWhile is_ascii_alpha s;
          digits = takeWhile is_ascii_digit rest;
          tail = dropWhile is_ascii_digit rest
      in 1 \<le> length letters \<and> length letters \<le> 6 \<and> digits \<noteq> []
         \<and> (case tail of
               [] \<Rightarrow> True
             | c # decimals \<Rightarrow> c = CHR ''.'' \<and> decimals \<noteq> [] \<and> list_all is_ascii_digit decimals))"

text \<open>\<^verbatim>\<open>re.match(r"^[A-Za-z0-9+#.]+$", s)\<close>\<close>

definition single_token :: "string \<Rightarrow> bool" where
  "single_token s = (s \<noteq> [] \<and> list_all is_word_char s)"

definition known_acronyms :: "string list" where
  "known_acronyms = [''api'', ''apis'', ''sql'', ''aws'', ''gcp'', ''ml'', ''ai'', ''ci'', ''cd'']"

text \<open>The second half of the loop body: the \<^verbatim>\<open>if/elif\<close> chain that sets \<^verbatim>\<open>norm\<close>.\<close>

definition skill_case :: "string \<Rightarrow> string" where
  "skill_case s =
     (if py_isupper s then s
      else if version_like s then s
      else if single_token s then (if py_lower s \<in> set known_acronyms then py_upper s else s)
      else py_join '' '' (map (\<lambda>w. if py_isalpha w then py_capitalize w else w)
                              (py_split (CHR '' '') s)))"

text \<open>One pass of the loop over \<^verbatim>\<open>items\<close>, on the pair of \<^verbatim>\<open>out\<close> and \<^verbatim>\<open>seen\<close>.\<close>

definition skill_step :: "string \<Rightarrow> string list \<times> string set \<Rightarrow> string list \<times> string set" where
  "skill_step raw acc =
     (case acc of (out, seen) \<Rightarrow>
        (case clean_skill raw of
           None \<Rightarrow> (out, seen)
         | Some s \<Rightarrow>
             (let norm = skill_case s; key = py_lower norm
              in if key \<in> seen then (out, seen) else (out @ [norm], insert key seen))))"

definition normalize_skills :: "string list \<Rightarrow> string list" where
  "normalize_skills items = fst (fold skill_step items ([], {}))"

text \<open>
  Removing duplicates case-insensitively while keeping the first form seen and the
  order, as the specification words the last step of the normalisation; \<open>seen\<close> holds
  the lower-cased forms already taken.
\<close>

fun first_seen_ci :: "string set \<Rightarrow> string list \<Rightarrow> string list" where
  "first_seen_ci seen [] = []"
| "first_seen_ci seen (x # xs) =
     (if py_lower x \<in> seen then first_seen_ci seen xs
      else x # first_seen_ci (insert (py_lower x) seen) xs)"

section \<open>scoring\_engine.py: reading the structured resume\<close>

text \<open>
  \<^verbatim>\<open>_WORD_RE.finditer(text)\<close> for \<^verbatim>\<open>[A-Za-z0-9+#.]{2,}\<close>, and in general the matches of
  \<^verbatim>\<open>[class]{n,}\<close>: the maximal runs of at least \<open>n\<close> characters of the class, from left
  to right.
\<close>

function re_find_runs :: "nat \<Rightarrow> (char \<Rightarrow> bool) \<Rightarrow> string \<Rightarrow> string list" where
  "re_find_runs n P [] = []"
| "re_find_runs n P (c # cs) =
     (if P c
      then (let run = c # takeWhile P cs
            in (if n \<le> length run then [run] else []) @ re_find_runs n P (dropWhile P cs))
      else re_find_runs n P cs)"
  by pat_completeness auto
termination
  by (relation "measure (\<lambda>(n, P, s). length s)")
     (auto simp: length_dropWhile_le less_Suc_eq_le)

text \<open>\<^verbatim>\<open>kw in txt\<close> for two strings.\<close>

fun py_contains :: "string \<Rightarrow> string \<Rightarrow> bool" where
  "py_contains kw [] = (kw = [])"
| "py_contains kw (c # cs) = (prefix kw (c # cs) \<or> py_contains kw cs)"

definition STOP :: "string list" where
  "STOP = [''a'', ''an'', ''and'', ''are'', ''as'', ''at'', ''be'', ''by'', ''for'', ''from'',
           ''in'', ''is'', ''it'', ''of'', ''on'', ''or'', ''that'', ''the'', ''this'', ''to'',
           ''with'', ''you'', ''your'']"

definition SKILL_ALIASES :: "(string \<times> string) list" where
  "SKILL_ALIASES =
     [(''fastapi'', ''python''), (''django'', ''python''), (''flask'', ''python''),
      (''pandas'', ''python''), (''numpy'', ''python''), (''spring'', ''java''),
      (''springboot'', ''java''), (''node'', ''javascript''), (''nodejs'', ''javascript''),
      (''reactjs'', ''react''), (''nextjs'', ''react''), (''typescript'', ''javascript''),
      (''postgresql'', ''sql''), (''mysql'', ''sql''), (''sqlite'', ''sql''),
      (''rest'', ''api''), (''restapi'', ''api''), (''microservices'', ''backend''),
      (''microservice'', ''backend'')]"

text \<open>\<^verbatim>\<open>_normalize_skill\<close> and \<^verbatim>\<open>_canonical_skill\<close>.\<close>

definition is_skill_char :: "char \<Rightarrow> bool" where
  "is_skill_char c =
     (is_ascii_lower c \<or> is_ascii_digit c \<or> c = CHR ''+'' \<or> c = CHR ''#'' \<or> c = CHR ''.''
      \<or> c = CHR '' '')"

definition normalize_skill :: "string \<Rightarrow> string" where
  "normalize_skill s =
     (let s = py_lower (py_strip s);
          s = py_strip (re_sub_runs 1 (\<lambda>c. \<not> is_skill_char c) '' '' s)
      in re_sub_runs 2 py_isspace '' '' s)"

definition canonical_skill :: "string \<Rightarrow> string" where
  "canonical_skill s =
     (let n = normalize_skill s;
          key = filter (\<lambda>c. c \<noteq> CHR '' '') n
      in case map_of SKILL_ALIASES key of
           Some v \<Rightarrow> v
         | None \<Rightarrow> (case map_of SKILL_ALIASES n of Some v \<Rightarrow> v | None \<Rightarrow> n))"

text \<open>
  The truth value of a JSON value, \<^verbatim>\<open>x or {}\<close>, \<^verbatim>\<open>x or []\<close>, and the method
  \<^verbatim>\<open>get\<close>, which only a \<^verbatim>\<open>dict\<close> has: on any other value Python raises
  \<^verbatim>\<open>AttributeError\<close>.
\<close>

definition py_truthy :: "json \<Rightarrow> bool" where
  "py_truthy j =
     (case j of
        JNull \<Rightarrow> False
      | JBool b \<Rightarrow> b
      | JInt i \<Rightarrow> i \<noteq> 0
      | JFloat f \<Rightarrow> fl_truthy f
      | JStr s \<Rightarrow> s \<noteq> []
      | JArr xs \<Rightarrow> xs \<noteq> []
      | JObj kvs \<Rightarrow> kvs \<noteq> [])"

definition json_or :: "json \<Rightarrow> json \<Rightarrow> json" where
  "json_or j d = (if py_truthy j then j else d)"

definition json_get :: "json \<Rightarrow> string \<Rightarrow> py_error + json" where
  "json_get j k =
     (case j of
        JObj kvs \<Rightarrow> Inr (case map_of kvs k of Some v \<Rightarrow> v | None \<Rightarrow> JNull)
      | _ \<Rightarrow> Inl AttributeError)"

definition bind_err :: "py_error + 'a \<Rightarrow> ('a \<Rightarrow> py_error + 'b) \<Rightarrow> py_error + 'b" where
  "bind_err m f = (case m of Inl e \<Rightarrow> Inl e | Inr x \<Rightarrow> f x)"

text \<open>
  \<^verbatim>\<open>str(x)\<close> of a JSON value.  For a float, a list and a dict it is Python's \<^verbatim>\<open>repr\<close>,
  passed in as the first argument.
\<close>

definition py_str :: "(json \<Rightarrow> string) \<Rightarrow> json \<Rightarrow> string" where
  "py_str repr j =
     (case j of
        JStr s \<Rightarrow> s
      | JInt i \<Rightarrow> py_str_int i
      | JBool b \<Rightarrow> (if b then ''True'' else ''False'')
      | JNull \<Rightarrow> ''None''
      | _ \<Rightarrow> repr j)"

text \<open>\<^verbatim>\<open>raw = structured_json or ai_structured_json or ""\<close>\<close>

definition select_raw :: "string option \<Rightarrow> string option \<Rightarrow> string" where
  "select_raw structured_json ai_structured_json = str_or structured_json (str_or ai_structured_json [])"

text \<open>The body of the loop \<^verbatim>\<open>for it in items\<close> of \<^verbatim>\<open>extract_resume_skills\<close>.\<close>

definition add_candidate :: "string \<Rightarrow> string list \<times> string set \<Rightarrow> string list \<times> string set" where
  "add_candidate c acc =
     (case acc of (out, seen) \<Rightarrow>
        if c = [] then (out, seen)
        else if c \<in> seen then (out, seen)
        else (out @ [c], insert c seen))"

definition resume_skill_step ::
  "(json \<Rightarrow> string) \<Rightarrow> json \<Rightarrow> string list \<times> string set \<Rightarrow> string list \<times> string set" where
  "resume_skill_step repr it acc =
     (let n = canonical_skill (py_str repr it)
      in if n = [] then acc
         else
           let candidates =
                 [n] @ (if CHR '' '' \<in> set n then filter (\<lambda>p. p \<noteq> []) (py_split (CHR '' '') n) else [])
           in fold add_candidate candidates acc)"

text \<open>
  \<^verbatim>\<open>extract_resume_skills\<close>.  \<^verbatim>\<open>json.loads\<close> is the first argument; \<open>None\<close> stands for
  any exception it raises, all of which the \<^verbatim>\<open>try\<close> catches.
\<close>

definition extract_resume_skills ::
  "(string \<Rightarrow> json option) \<Rightarrow> (json \<Rightarrow> string) \<Rightarrow> string option \<Rightarrow> string option
     \<Rightarrow> py_error + string list" where
  "extract_resume_skills loads repr structured_json ai_structured_json =
     (let raw = select_raw structured_json ai_structured_json
      in if raw = [] then Inr []
         else
           (case loads raw of
              None \<Rightarrow> Inr []
            | Some payload \<Rightarrow>
                bind_err (json_get (json_or payload (JObj [])) ''sections'') (\<lambda>sections.
                bind_err (json_get (json_or sections (JObj [])) ''skills'') (\<lambda>skills.
                bind_err (json_get (json_or skills (JObj [])) ''items'') (\<lambda>items.
                  (case json_or items (JArr []) of
                     JArr its \<Rightarrow> Inr (fst (fold (resume_skill_step repr) its ([], {})))
                   | _ \<Rightarrow> Inr []))))))"

text \<open>
  \<^verbatim>\<open>extract_resume_experience_text\<close> and \<^verbatim>\<open>extract_resume_education_text\<close> have the
  same body but for the name of the section.
\<close>

definition extract_section_text ::
  "string \<Rightarrow> (string \<Rightarrow> json option) \<Rightarrow> (json \<Rightarrow> string) \<Rightarrow> string option \<Rightarrow> string option
     \<Rightarrow> py_error + string" where
  "extract_section_text section loads repr structured_json ai_structured_json =
     (let raw = select_raw structured_json ai_structured_json
      in if raw = [] then Inr []
         else
           (case loads raw of
              None \<Rightarrow> Inr []
            | Some payload \<Rightarrow>
                bind_err (json_get (json_or payload (JObj [])) ''sections'') (\<lambda>sections.
                bind_err (json_get (json_or sections (JObj [])) section) (\<lambda>sec.
                  (let exp = json_or sec (JObj [])
                   in bind_err (json_get exp ''text'') (\<lambda>text.
                      bind_err (json_get exp ''items'') (\<lambda>items.
                        (let txt = py_str repr (json_or text (JStr []))
                         in (case json_or items (JArr []) of
                               JArr its \<Rightarrow>
                                 (if its \<noteq> []
                                  then Inr (py_strip (py_strip
                                         (txt @ [CHR 0x0A]
                                          @ py_join [CHR 0x0A]
                                              (map (py_str repr) (filter (\<lambda>x. x \<noteq> JNull) its)))))
                                  else Inr (py_strip txt))
                             | _ \<Rightarrow> Inr (py_strip txt))))))))))"

definition extract_resume_experience_text ::
  "(string \<Rightarrow> json option) \<Rightarrow> (json \<Rightarrow> string) \<Rightarrow> string option \<Rightarrow> string option
     \<Rightarrow> py_error + string" where
  "extract_resume_experience_text = extract_section_text ''experience''"

definition extract_resume_education_text ::
  "(string \<Rightarrow> json option) \<Rightarrow> (json \<Rightarrow> string) \<Rightarrow> string option \<Rightarrow> string option
     \<Rightarrow> py_error + string" where
  "extract_resume_education_text = extract_section_text ''education''"

section \<open>scoring\_engine.py: job tokens and the component scores\<close>

text \<open>Appending what was not seen before: the loops over \<^verbatim>\<open>explicit\<close> and over \<^verbatim>\<open>toks\<close>.\<close>

definition add_unseen :: "string \<Rightarrow> string list \<times> string set \<Rightarrow> string list \<times> string set" where
  "add_unseen w acc =
     (case acc of (out, seen) \<Rightarrow> if w \<in> seen then (out, seen) else (out @ [w], insert w seen))"

text \<open>The body of the loop over the matches of \<^verbatim>\<open>_WORD_RE\<close> in the job text.\<close>

definition job_token_step :: "string \<Rightarrow> string list \<times> string set \<Rightarrow> string list \<times> string set" where
  "job_token_step m acc =
     (let w = py_strip_chars ''.'' m
      in if w = [] \<or> w \<in> set STOP then acc
         else if 40 < length w then acc
         else add_unseen (canonical_skill w) acc)"

definition extract_job_skill_tokens ::
  "string option \<Rightarrow> string option \<Rightarrow> string list option \<Rightarrow> string list" where
  "extract_job_skill_tokens job_title job_description required_skills =
     (let explicit = filter (\<lambda>s. s \<noteq> [])
                       (map canonical_skill (case required_skills of None \<Rightarrow> [] | Some rs \<Rightarrow> rs))
      in if explicit \<noteq> [] then take 60 (fst (fold add_unseen explicit ([], {})))
         else
           let text = py_lower (py_strip (str_or job_title [] @ [CHR 0x0A] @ str_or job_description []))
           in take 60 (fst (fold job_token_step (re_find_runs 2 is_word_char text) ([], {}))))"

text \<open>
  The loop that collects the experience tokens; it leaves (\<^verbatim>\<open>break\<close>) as soon as 800
  distinct tokens are held.
\<close>

fun collect_exp_tokens :: "string list \<Rightarrow> string set \<Rightarrow> string set" where
  "collect_exp_tokens [] exp_tokens = exp_tokens"
| "collect_exp_tokens (m # ms) exp_tokens =
     (let w = py_strip_chars ''.'' m
      in if w = [] \<or> w \<in> set STOP then collect_exp_tokens ms exp_tokens
         else
           let exp_tokens = insert w exp_tokens
           in if 800 \<le> card exp_tokens then exp_tokens else collect_exp_tokens ms exp_tokens)"

definition experience_relevance_score :: "string list \<Rightarrow> string \<Rightarrow> real" where
  "experience_relevance_score job_tokens experience_text =
     (let et = py_strip (py_lower experience_text)
      in if et = [] \<or> job_tokens = [] then 0
         else
           let exp_tokens = collect_exp_tokens (re_find_runs 2 is_word_char et) {}
           in if exp_tokens = {} then 0
              else
                let overlap = length (filter (\<lambda>t. t \<in> exp_tokens) job_tokens);
                    overlap_ratio = real overlap / real (max 1 (length job_tokens));
                    length_factor = min 1 (max 0 (real (length et) / 900));
                    score = 0.7 * overlap_ratio + 0.3 * length_factor
                in if score < 0 then 0 else if 1 < score then 1 else score)"

definition degree_keywords :: "string list" where
  "degree_keywords = [''b.tech'', ''btech'', ''b.e'', ''be '', ''bachelor'', ''m.tech'', ''mtech'',
                      ''master'', ''computer science'', ''engineering'']"

definition cert_keywords :: "string list" where
  "cert_keywords = [''certification'', ''certified'', ''course'', ''bootcamp'', ''specialization'']"

definition stem_keywords :: "string list" where
  "stem_keywords = [''backend'', ''api'', ''cloud'', ''data'', ''python'', ''java'', ''javascript'',
                    ''sql'', ''devops'']"

definition education_relevance_score :: "string option \<Rightarrow> string option \<Rightarrow> string \<Rightarrow> real" where
  "education_relevance_score job_title job_description education_text =
     (let txt = py_strip (py_lower education_text)
      in if txt = [] then 0
         else
           let degree_hits = length (filter (\<lambda>kw. py_contains kw txt) degree_keywords);
               cert_hits = length (filter (\<lambda>kw. py_contains kw txt) cert_keywords);
               job_text = py_lower (str_or job_title [] @ '' '' @ str_or job_description []);
               stem_overlap = length (filter (\<lambda>stem. py_contains stem txt \<and> py_contains stem job_text)
                                        stem_keywords);
               score = 0.35 * min 1 (real degree_hits / 3) + 0.15 * min 1 (real cert_hits / 2)
                       + 0.50 * min 1 (real stem_overlap / 4)
           in if score < 0 then 0 else if 1 < score then 1 else score)"

section \<open>scoring\_engine.py: score\_application\<close>

record score_breakdown =
  bd_weights :: "(string \<times> real) list"
  bd_semantic_score :: pyfloat
  bd_skills_score :: real
  bd_experience_score :: real
  bd_education_score :: real
  bd_ai_reasoning_score :: pyfloat
  bd_ai_relevance_score :: pyfloat
  bd_matched_skills :: "string list"
  bd_missing_skills :: "string list"
  bd_notes :: "string list"

text \<open>\<^verbatim>\<open>not s\<close> for an optional string.\<close>

definition str_falsy :: "string option \<Rightarrow> bool" where
  "str_falsy s = (case s of None \<Rightarrow> True | Some t \<Rightarrow> t = [])"

text \<open>
  \<^verbatim>\<open>score_application\<close>, with \<^verbatim>\<open>json.loads\<close> and \<^verbatim>\<open>repr\<close> as its first arguments.
  The three extraction calls are made in the order of the source, and an exception of
  one of them, or of \<^verbatim>\<open>compute_final_score\<close>, ends the call.  The skills, experience
  and education scores are computed in exact arithmetic, from which the floats of the
  code differ by rounding only; they enter the final score as the nearest floats.  The
  AI score is the float \<^verbatim>\<open>ai_score / 100.0\<close>.
\<close>

definition score_application ::
  "(string \<Rightarrow> json option) \<Rightarrow> (json \<Rightarrow> string) \<Rightarrow> string option \<Rightarrow> string option
     \<Rightarrow> string list option \<Rightarrow> string option \<Rightarrow> string option \<Rightarrow> pyfloat \<Rightarrow> int option
     \<Rightarrow> py_error + (real \<times> int \<times> score_breakdown)" where
  "score_application loads repr job_title job_description job_required_skills
       resume_structured_json resume_ai_structured_json semantic_score ai_relevance_pct =
     bind_err (extract_resume_skills loads repr resume_structured_json resume_ai_structured_json)
       (\<lambda>resume_skills.
     (let job_skills = extract_job_skill_tokens job_title job_description job_required_skills
      in (case skills_overlap_score resume_skills job_skills of
            (skills_score, matched, missing) \<Rightarrow>
     bind_err (extract_resume_experience_text loads repr resume_structured_json
                 resume_ai_structured_json)
       (\<lambda>exp_text.
     (let experience_score = experience_relevance_score job_skills exp_text
      in
     bind_err (extract_resume_education_text loads repr resume_structured_json
                 resume_ai_structured_json)
       (\<lambda>edu_text.
     (let education_score = education_relevance_score job_title job_description edu_text;
          ai_score = (case ai_relevance_pct of
                        None \<Rightarrow> None
                      | Some pct \<Rightarrow> Some (max 0 (min 100 pct)));
          ai_reasoning_score = (case ai_score of
                                  None \<Rightarrow> Fin 0
                                | Some a \<Rightarrow> rnd64 (real_of_int a / 100));
          notes =
            (if str_falsy resume_structured_json \<and> str_falsy resume_ai_structured_json
             then [''No structured resume skills available; skills_score may be low.''] else [])
            @ (if job_skills = []
               then [''Could not extract skill tokens from job description.''] else [])
            @ (if ai_score = None
               then [''No AI reasoning score available; ai_reasoning_score set to 0.''] else [])
      in bind_err (compute_final_score semantic_score (rnd64 skills_score)
                     (rnd64 experience_score) (rnd64 education_score) ai_reasoning_score)
           (\<lambda>final_score.
         Inr (skills_score, final_score,
              \<lparr>bd_weights = [(''ai_reasoning'', 0.45), (''skills'', 0.20), (''experience'', 0.15),
                             (''education'', 0.10), (''semantic'', 0.10)],
               bd_semantic_score = semantic_score,
               bd_skills_score = skills_score,
               bd_experience_score = experience_score,
               bd_education_score = education_score,
               bd_ai_reasoning_score = ai_reasoning_score,
               bd_ai_relevance_score = ai_reasoning_score,
               bd_matched_skills = matched,
               bd_missing_skills = missing,
               bd_notes = notes\<rparr>)))))))))"

text \<open>A structured resume of the shape that \<^verbatim>\<open>parse_resume_text\<close> stores, for the examples.\<close>

definition sample_resume :: json where
  "sample_resume =
     JObj [(''version'', JInt 1),
           (''sections'',
            JObj [(''skills'', JObj [(''items'', JArr [JStr ''Python'', JStr ''FastAPI'', JStr ''AWS'']),
                                     (''text'', JStr [])]),
                  (''experience'', JObj [(''text'', JStr ''Built python backend services''),
                                         (''items'', JArr [])]),
                  (''education'', JObj [(''text'', JStr ''B.Tech computer science''),
                                        (''items'', JArr [JStr ''python course'', JNull])])])]"

section \<open>Properties of the float arithmetic\<close>

lemma pow2_powr: "pow2 e = 2 powr (of_int e)"
proof (cases "0 \<le> e")
  case True
  then have "2 powr (of_int e) = (2::real) powr (real (nat e))" by simp
  also have "\<dots> = 2 ^ nat e" by (simp add: powr_realpow)
  finally show ?thesis using True by (simp add: pow2_def)
next
  case False
  then have "2 powr (of_int e) = (2::real) powr (- real (nat (- e)))" by simp
  also have "\<dots> = 1 / 2 ^ nat (- e)" by (simp add: powr_minus powr_realpow inverse_eq_divide)
  finally show ?thesis using False by (simp add: pow2_def)
qed

lemma pow2_pos: "0 < pow2 e"
  by (simp add: pow2_powr)

lemma pow2_mono: "a \<le> b \<Longrightarrow> pow2 a \<le> pow2 b"
  by (simp add: pow2_powr)

lemma pow2_le_iff: "pow2 a \<le> pow2 b \<longleftrightarrow> a \<le> b"
  by (simp add: pow2_powr)

lemma binade_bounds:
  assumes "x \<noteq> 0"
  shows "pow2 (binade x) \<le> \<bar>x\<bar>" and "\<bar>x\<bar> < pow2 (binade x + 1)"
proof -
  from assms have pos: "0 < \<bar>x\<bar>" by simp
  have id: "2 powr (log 2 \<bar>x\<bar>) = \<bar>x\<bar>"
    using pos by simp
  have "2 powr (of_int \<lfloor>log 2 \<bar>x\<bar>\<rfloor>) \<le> 2 powr (log 2 \<bar>x\<bar>)"
    by (intro powr_mono) simp_all
  then show "pow2 (binade x) \<le> \<bar>x\<bar>"
    by (simp add: pow2_powr binade_def id)
  have "log 2 \<bar>x\<bar> < of_int (\<lfloor>log 2 \<bar>x\<bar>\<rfloor> + 1)"
    by linarith
  then have "2 powr (log 2 \<bar>x\<bar>) < 2 powr (of_int (\<lfloor>log 2 \<bar>x\<bar>\<rfloor> + 1))"
    by (intro powr_less_mono) simp_all
  then show "\<bar>x\<bar> < pow2 (binade x + 1)"
    by (simp add: pow2_powr binade_def id)
qed

lemma binade_unique:
  assumes "pow2 e \<le> \<bar>x\<bar>" and "\<bar>x\<bar> < pow2 (e + 1)"
  shows "binade x = e"
proof -
  from assms(1) pow2_pos [of e] have pos: "0 < \<bar>x\<bar>" by linarith
  have "of_int e \<le> log 2 \<bar>x\<bar>"
    using assms(1) pos by (simp add: pow2_powr le_log_iff)
  moreover have "log 2 \<bar>x\<bar> < of_int (e + 1)"
    using assms(2) pos by (simp add: pow2_powr log_less_iff)
  ultimately show ?thesis
    unfolding binade_def by linarith
qed

text \<open>How a rounding is evaluated once the binade of its argument is known.\<close>

lemma rnd64_in_binade:
  assumes "pow2 e \<le> \<bar>x\<bar>" and "\<bar>x\<bar> < pow2 (e + 1)"
  shows "rnd64 x =
     (let q = max e (- 1022) - 52;
          r = of_int (py_round (x / pow2 q)) * pow2 q
      in if 2 ^ 1024 \<le> \<bar>r\<bar> then (if 0 < x then PInf else NInf) else Fin r)"
proof -
  from assms(1) pow2_pos [of e] have "x \<noteq> 0" by auto
  with binade_unique [OF assms] show ?thesis
    by (simp add: rnd64_def)
qed

lemma py_round_close: "\<bar>of_int (py_round y) - y\<bar> \<le> 1 / 2"
  unfolding py_round_def Let_def by (auto; linarith)

lemma py_round_nonneg: "0 \<le> y \<Longrightarrow> 0 \<le> py_round y"
  unfolding py_round_def Let_def by auto

text \<open>
  Below 128 a rounding is finite, moves its argument by at most \<open>2^-46\<close> and keeps a
  non-negative argument non-negative.
\<close>

lemma rnd64_err:
  assumes "\<bar>x\<bar> \<le> 128"
  shows "\<exists>r. rnd64 x = Fin r \<and> \<bar>r - x\<bar> \<le> 1 / 2 ^ 46 \<and> (0 \<le> x \<longrightarrow> 0 \<le> r)"
proof (cases "x = 0")
  case True
  then show ?thesis by (simp add: rnd64_def)
next
  case False
  define q where "q = max (binade x) (- 1022) - 52"
  define s where "s = pow2 q"
  define n where "n = py_round (x / s)"
  define r where "r = of_int n * s"
  have spos: "0 < s" by (simp add: s_def pow2_pos)
  have "pow2 (binade x) \<le> \<bar>x\<bar>" by (rule binade_bounds(1) [OF False])
  also have "\<bar>x\<bar> \<le> pow2 7" using assms by (simp add: pow2_def)
  finally have "binade x \<le> 7" by (simp add: pow2_le_iff)
  then have "q \<le> - 45" by (simp add: q_def)
  then have "s \<le> pow2 (- 45)" unfolding s_def by (rule pow2_mono)
  then have s45: "s \<le> 1 / 2 ^ 45" by (simp add: pow2_def)
  have "r - x = (of_int n - x / s) * s"
    using spos by (simp add: r_def algebra_simps)
  then have "\<bar>r - x\<bar> = \<bar>of_int n - x / s\<bar> * s"
    using spos by (simp add: abs_mult)
  also have "\<dots> \<le> (1 / 2) * s"
    using py_round_close [of "x / s"] spos unfolding n_def
    by (intro mult_right_mono) simp_all
  finally have err: "\<bar>r - x\<bar> \<le> 1 / 2 ^ 46" using s45 by simp
  have "(1 :: real) / 2 ^ 46 \<le> 1" by simp
  with err assms have "\<bar>r\<bar> \<le> 129" by linarith
  moreover have "(129 :: real) < 2 ^ 1024" by simp
  ultimately have small: "\<not> 2 ^ 1024 \<le> \<bar>r\<bar>" by linarith
  have eq: "rnd64 x = Fin r"
    using False small unfolding rnd64_def Let_def r_def n_def s_def q_def by simp
  have "0 \<le> r" if "0 \<le> x"
  proof -
    from that spos have "0 \<le> x / s" by simp
    then have "0 \<le> n" unfolding n_def by (rule py_round_nonneg)
    with spos show ?thesis by (simp add: r_def)
  qed
  with eq err show ?thesis by blast
qed

lemma rnd64_not_NaN: "rnd64 x \<noteq> NaN"
  by (simp add: rnd64_def Let_def)

lemma fl_mul_err:
  assumes "0 \<le> a" and "0 \<le> b" and "a * b \<le> 128"
  shows "\<exists>r. fl_mul (Fin a) (Fin b) = Fin r \<and> \<bar>r - a * b\<bar> \<le> 1 / 2 ^ 46 \<and> 0 \<le> r"
proof -
  from assms have "\<bar>a * b\<bar> \<le> 128" "0 \<le> a * b" by simp_all
  with rnd64_err [of "a * b"] show ?thesis by auto
qed

lemma fl_add_err:
  assumes "0 \<le> a" and "0 \<le> b" and "a + b \<le> 128"
  shows "\<exists>r. fl_add (Fin a) (Fin b) = Fin r \<and> \<bar>r - (a + b)\<bar> \<le> 1 / 2 ^ 46 \<and> 0 \<le> r"
proof -
  from assms have "\<bar>a + b\<bar> \<le> 128" "0 \<le> a + b" by simp_all
  with rnd64_err [of "a + b"] show ?thesis by auto
qed

lemma fl_mul_NaN_right: "fl_mul x NaN = NaN"
  by (cases x) simp_all

lemma fl_add_NaN_right: "fl_add x NaN = NaN"
  by (cases x) simp_all

lemma py_round_le_100:
  assumes "y < 100 + 1 / 2"
  shows "py_round y \<le> 100"
proof -
  have f: "\<lfloor>y\<rfloor> \<le> 100" using assms by (simp add: floor_le_iff)
  show ?thesis
  proof (cases "\<lfloor>y\<rfloor> = 100")
    case True
    then have "y - of_int \<lfloor>y\<rfloor> < 1 / 2" using assms by simp
    with True show ?thesis by (simp add: py_round_def Let_def)
  next
    case False
    with f have "\<lfloor>y\<rfloor> + 1 \<le> 100" by linarith
    then show ?thesis unfolding py_round_def Let_def by (simp del: floor_le_iff)
  qed
qed


section \<open>The value of the final score\<close>

lemma clamp_unit_value:
  "x \<noteq> NaN \<Longrightarrow> clamp_unit (float_or_zero x) = Fin (spec_clamp_unit x)"
  by (cases x)
     (auto simp: clamp_unit_def float_or_zero_def fl_truthy_def spec_clamp_unit_def Let_def
        max_def min_def)

lemma clamp_unit_NaN: "clamp_unit (float_or_zero NaN) = NaN"
  by (simp add: clamp_unit_def float_or_zero_def fl_truthy_def Let_def)

lemma spec_clamp_unit_range: "0 \<le> spec_clamp_unit x \<and> spec_clamp_unit x \<le> 1"
  by (cases x) (simp_all add: spec_clamp_unit_def)

text \<open>
  On components of the unit interval the float expression of \<^verbatim>\<open>val\<close> is finite,
  non-negative and within \<open>2^-35\<close> of one hundred times the exact weighted sum.
\<close>

lemma weighted_value:
  assumes "0 \<le> s" "s \<le> 1" "0 \<le> k" "k \<le> 1" "0 \<le> e" "e \<le> 1" "0 \<le> d" "d \<le> 1"
    "0 \<le> a" "a \<le> 1"
  shows "\<exists>v. fl_mul (Fin 100)
                (fl_add
                   (fl_add
                      (fl_add
                         (fl_add (fl_mul (rnd64 (10 / 100)) (Fin s))
                                 (fl_mul (rnd64 (20 / 100)) (Fin k)))
                         (fl_mul (rnd64 (15 / 100)) (Fin e)))
                      (fl_mul (rnd64 (10 / 100)) (Fin d)))
                   (fl_mul (rnd64 (45 / 100)) (Fin a))) = Fin v
            \<and> 0 \<le> v \<and> \<bar>v - 100 * spec_weighted_sum s k e d a\<bar> \<le> 1 / 2 ^ 35"
proof -
  define eps :: real where "eps = 1 / 2 ^ 46"
  have eps: "0 \<le> eps" "eps \<le> 1 / 1000" "1401 * eps \<le> 1 / 2 ^ 35"
    by (simp_all add: eps_def)
  have r: "\<exists>r. rnd64 x = Fin r \<and> x - eps \<le> r \<and> r \<le> x + eps \<and> 0 \<le> r"
    if "0 \<le> x" "x \<le> 128" for x
  proof -
    from that have "\<bar>x\<bar> \<le> 128" by simp
    from rnd64_err [OF this] that(1) obtain r
      where "rnd64 x = Fin r" "\<bar>r - x\<bar> \<le> eps" "0 \<le> r"
      unfolding eps_def by blast
    moreover from this(2) have "x - eps \<le> r" "r \<le> x + eps" by linarith+
    ultimately show ?thesis by blast
  qed
  have m: "\<exists>p. fl_mul (Fin w) (Fin u) = Fin p \<and> l * u - 2 * eps \<le> p \<and> p \<le> l * u + 2 * eps
        \<and> 0 \<le> p"
    if "rnd64 l = Fin w" "0 \<le> l" "l \<le> 1" "0 \<le> u" "u \<le> 1" for w u l
  proof -
    from r [of l] that have w: "l - eps \<le> w" "w \<le> l + eps" "0 \<le> w" by auto
    have nn: "0 \<le> w * u" using w that by simp
    have up: "w * u \<le> (l + eps) * u" using w that by (intro mult_right_mono) simp_all
    have lo: "(l - eps) * u \<le> w * u" using w that by (intro mult_right_mono) simp_all
    have eu: "eps * u \<le> eps" "0 \<le> eps * u" using eps that by (simp_all add: mult_left_le)
    have lu: "l * u \<le> 1" "0 \<le> l * u" using that by (simp_all add: mult_le_one)
    from up lo have b: "w * u \<le> l * u + eps * u" "l * u - eps * u \<le> w * u"
      by (simp_all add: algebra_simps)
    with eu lu eps have "w * u \<le> 128" by linarith
    from r [OF nn this] obtain p
      where p: "rnd64 (w * u) = Fin p" "w * u - eps \<le> p" "p \<le> w * u + eps" "0 \<le> p"
      by blast
    have "fl_mul (Fin w) (Fin u) = Fin p" using p(1) by simp
    moreover have "l * u - 2 * eps \<le> p" "p \<le> l * u + 2 * eps" using p b eu by linarith+
    ultimately show ?thesis using p(4) by blast
  qed
  have ad: "\<exists>t. fl_add (Fin x) (Fin y) = Fin t \<and> x + y - eps \<le> t \<and> t \<le> x + y + eps \<and> 0 \<le> t"
    if "0 \<le> x" "0 \<le> y" "x + y \<le> 128" for x y
  proof -
    from that have "0 \<le> x + y" by simp
    from r [OF this that(3)] show ?thesis by simp
  qed
  obtain w10 where w10: "rnd64 (10 / 100) = Fin w10" using r [of "10 / 100"] by auto
  obtain w20 where w20: "rnd64 (20 / 100) = Fin w20" using r [of "20 / 100"] by auto
  obtain w15 where w15: "rnd64 (15 / 100) = Fin w15" using r [of "15 / 100"] by auto
  obtain w45 where w45: "rnd64 (45 / 100) = Fin w45" using r [of "45 / 100"] by auto
  from m [OF w10 _ _ assms(1,2)] obtain p0
    where p0: "fl_mul (Fin w10) (Fin s) = Fin p0" "10 / 100 * s - 2 * eps \<le> p0"
      "p0 \<le> 10 / 100 * s + 2 * eps" "0 \<le> p0"
    by auto
  from m [OF w20 _ _ assms(3,4)] obtain p1
    where p1: "fl_mul (Fin w20) (Fin k) = Fin p1" "20 / 100 * k - 2 * eps \<le> p1"
      "p1 \<le> 20 / 100 * k + 2 * eps" "0 \<le> p1"
    by auto
  from m [OF w15 _ _ assms(5,6)] obtain p2
    where p2: "fl_mul (Fin w15) (Fin e) = Fin p2" "15 / 100 * e - 2 * eps \<le> p2"
      "p2 \<le> 15 / 100 * e + 2 * eps" "0 \<le> p2"
    by auto
  from m [OF w10 _ _ assms(7,8)] obtain p3
    where p3: "fl_mul (Fin w10) (Fin d) = Fin p3" "10 / 100 * d - 2 * eps \<le> p3"
      "p3 \<le> 10 / 100 * d + 2 * eps" "0 \<le> p3"
    by auto
  from m [OF w45 _ _ assms(9,10)] obtain p4
    where p4: "fl_mul (Fin w45) (Fin a) = Fin p4" "45 / 100 * a - 2 * eps \<le> p4"
      "p4 \<le> 45 / 100 * a + 2 * eps" "0 \<le> p4"
    by auto
  have "p0 + p1 \<le> 128" using p0 p1 assms eps by linarith
  from ad [OF p0(4) p1(4) this] obtain s1
    where s1: "fl_add (Fin p0) (Fin p1) = Fin s1" "p0 + p1 - eps \<le> s1" "s1 \<le> p0 + p1 + eps"
      "0 \<le> s1"
    by blast
  have "s1 + p2 \<le> 128" using s1 p0 p1 p2 assms eps by linarith
  from ad [OF s1(4) p2(4) this] obtain s2
    where s2: "fl_add (Fin s1) (Fin p2) = Fin s2" "s1 + p2 - eps \<le> s2" "s2 \<le> s1 + p2 + eps"
      "0 \<le> s2"
    by blast
  have "s2 + p3 \<le> 128" using s2 s1 p0 p1 p2 p3 assms eps by linarith
  from ad [OF s2(4) p3(4) this] obtain s3
    where s3: "fl_add (Fin s2) (Fin p3) = Fin s3" "s2 + p3 - eps \<le> s3" "s3 \<le> s2 + p3 + eps"
      "0 \<le> s3"
    by blast
  have "s3 + p4 \<le> 128" using s3 s2 s1 p0 p1 p2 p3 p4 assms eps by linarith
  from ad [OF s3(4) p4(4) this] obtain s4
    where s4: "fl_add (Fin s3) (Fin p4) = Fin s4" "s3 + p4 - eps \<le> s4" "s4 \<le> s3 + p4 + eps"
      "0 \<le> s4"
    by blast
  have sum_lo: "10 / 100 * s + 20 / 100 * k + 15 / 100 * e + 10 / 100 * d + 45 / 100 * a
      - 14 * eps \<le> s4"
    using s4 s3 s2 s1 p0 p1 p2 p3 p4 by linarith
  have sum_up: "s4 \<le> 10 / 100 * s + 20 / 100 * k + 15 / 100 * e + 10 / 100 * d + 45 / 100 * a
      + 14 * eps"
    using s4 s3 s2 s1 p0 p1 p2 p3 p4 by linarith
  have "100 * s4 \<le> 128" using sum_up assms eps by linarith
  moreover have "0 \<le> 100 * s4" using s4(4) by simp
  ultimately obtain v
    where v: "rnd64 (100 * s4) = Fin v" "100 * s4 - eps \<le> v" "v \<le> 100 * s4 + eps" "0 \<le> v"
    using r [of "100 * s4"] by blast
  have val: "fl_mul (Fin 100)
                (fl_add
                   (fl_add
                      (fl_add
                         (fl_add (fl_mul (rnd64 (10 / 100)) (Fin s))
                                 (fl_mul (rnd64 (20 / 100)) (Fin k)))
                         (fl_mul (rnd64 (15 / 100)) (Fin e)))
                      (fl_mul (rnd64 (10 / 100)) (Fin d)))
                   (fl_mul (rnd64 (45 / 100)) (Fin a))) = Fin v"
    unfolding w10 w20 w15 w45 p0(1) p1(1) p2(1) p3(1) p4(1) s1(1) s2(1) s3(1) s4(1)
    using v(1) by simp
  have "\<bar>v - 100 * spec_weighted_sum s k e d a\<bar> \<le> 1401 * eps"
    unfolding spec_weighted_sum_def using v sum_lo sum_up by (simp add: abs_le_iff)
  with eps(3) have "\<bar>v - 100 * spec_weighted_sum s k e d a\<bar> \<le> 1 / 2 ^ 35" by linarith
  with val v(4) show ?thesis by blast
qed

lemma spec_weighted_sum_range:
  assumes "0 \<le> s" "s \<le> 1" "0 \<le> k" "k \<le> 1" "0 \<le> e" "e \<le> 1" "0 \<le> d" "d \<le> 1"
    "0 \<le> a" "a \<le> 1"
  shows "0 \<le> spec_weighted_sum s k e d a \<and> spec_weighted_sum s k e d a \<le> 1"
  using assms unfolding spec_weighted_sum_def by simp

text \<open>
  Without a NaN among its arguments the function returns the rounded float value, which
  already lies between 0 and 100 and is at most one away from the rounding of the exact
  weighted sum.
\<close>

lemma compute_final_score_value:
  assumes "semantic_score \<noteq> NaN" "skills_score \<noteq> NaN" "experience_score \<noteq> NaN"
    "education_score \<noteq> NaN" "ai_reasoning_score \<noteq> NaN"
  shows "\<exists>v. fl_mul (Fin 100)
                (fl_add
                   (fl_add
                      (fl_add
                         (fl_add (fl_mul (rnd64 (10 / 100)) (Fin (spec_clamp_unit semantic_score)))
                                 (fl_mul (rnd64 (20 / 100)) (Fin (spec_clamp_unit skills_score))))
                         (fl_mul (rnd64 (15 / 100)) (Fin (spec_clamp_unit experience_score))))
                      (fl_mul (rnd64 (10 / 100)) (Fin (spec_clamp_unit education_score))))
                   (fl_mul (rnd64 (45 / 100)) (Fin (spec_clamp_unit ai_reasoning_score)))) = Fin v
            \<and> \<bar>v - 100 * spec_weighted_sum (spec_clamp_unit semantic_score)
                   (spec_clamp_unit skills_score) (spec_clamp_unit experience_score)
                   (spec_clamp_unit education_score) (spec_clamp_unit ai_reasoning_score)\<bar>
                \<le> 1 / 2 ^ 35
            \<and> compute_final_score semantic_score skills_score experience_score education_score
                 ai_reasoning_score = Inr (py_round v)
            \<and> 0 \<le> py_round v \<and> py_round v \<le> 100
            \<and> \<bar>py_round v - py_round (100 * spec_weighted_sum (spec_clamp_unit semantic_score)
                   (spec_clamp_unit skills_score) (spec_clamp_unit experience_score)
                   (spec_clamp_unit education_score) (spec_clamp_unit ai_reasoning_score))\<bar> \<le> 1"
proof -
  define s k e d a where "s = spec_clamp_unit semantic_score"
    and "k = spec_clamp_unit skills_score" and "e = spec_clamp_unit experience_score"
    and "d = spec_clamp_unit education_score" and "a = spec_clamp_unit ai_reasoning_score"
  note defs = this
  have u: "0 \<le> s" "s \<le> 1" "0 \<le> k" "k \<le> 1" "0 \<le> e" "e \<le> 1" "0 \<le> d" "d \<le> 1"
    "0 \<le> a" "a \<le> 1"
    using spec_clamp_unit_range unfolding defs by blast+
  define y where "y = 100 * spec_weighted_sum s k e d a"
  from weighted_value [OF u] obtain v
    where v: "fl_mul (Fin 100)
                (fl_add
                   (fl_add
                      (fl_add
                         (fl_add (fl_mul (rnd64 (10 / 100)) (Fin s))
                                 (fl_mul (rnd64 (20 / 100)) (Fin k)))
                         (fl_mul (rnd64 (15 / 100)) (Fin e)))
                      (fl_mul (rnd64 (10 / 100)) (Fin d)))
                   (fl_mul (rnd64 (45 / 100)) (Fin a))) = Fin v"
      and nn: "0 \<le> v" and close: "\<bar>v - y\<bar> \<le> 1 / 2 ^ 35"
    unfolding y_def by blast
  from spec_weighted_sum_range [OF u] have y: "0 \<le> y" "y \<le> 100" by (simp_all add: y_def)
  have small: "(1 :: real) / 2 ^ 35 \<le> 1 / 4" by simp
  from close small y have "v < 100 + 1 / 2" by linarith
  then have le: "py_round v \<le> 100" by (rule py_round_le_100)
  from nn have ge: "0 \<le> py_round v" by (rule py_round_nonneg)
  have "\<bar>real_of_int (py_round v) - real_of_int (py_round y)\<bar> < 2"
    using py_round_close [of v] py_round_close [of y] close small by linarith
  then have near: "\<bar>py_round v - py_round y\<bar> \<le> 1" by linarith
  have code: "compute_final_score semantic_score skills_score experience_score education_score
      ai_reasoning_score = Inr (py_round v)"
    unfolding compute_final_score_def Let_def clamp_unit_value [OF assms(1)]
      clamp_unit_value [OF assms(2)] clamp_unit_value [OF assms(3)]
      clamp_unit_value [OF assms(4)] clamp_unit_value [OF assms(5)] v [unfolded defs]
    using le ge by (simp add: py_round_float_def)
  from v close code ge le near show ?thesis unfolding y_def defs by blast
qed

lemma compute_final_score_NaN:
  assumes "semantic_score = NaN \<or> skills_score = NaN \<or> experience_score = NaN
    \<or> education_score = NaN \<or> ai_reasoning_score = NaN"
  shows "compute_final_score semantic_score skills_score experience_score education_score
      ai_reasoning_score = Inl ValueError"
  using assms
  by (auto simp: compute_final_score_def Let_def clamp_unit_NaN fl_mul_NaN_right
        fl_add_NaN_right py_round_float_def)

lemma compute_final_score_range:
  assumes "compute_final_score semantic_score skills_score experience_score education_score
      ai_reasoning_score = Inr n"
  shows "0 \<le> n \<and> n \<le> 100"
  using assms
  by (auto simp: compute_final_score_def Let_def split: sum.splits if_splits)

section \<open>Properties of the final score\<close>

lemma worked_example_value:
  "compute_final_score (rnd64 (8 / 10)) (rnd64 (667 / 1000)) (rnd64 (5 / 10)) (rnd64 (3 / 10))
       (rnd64 (real_of_int (max 0 (min 100 88)) / 100)) = Inr 71"
proof -
  have in0: "rnd64 (8 / 10) = Fin (3602879701896397 / 4503599627370496)"
    by (subst rnd64_in_binade [of "- 1"]) (simp_all add: pow2_def py_round_def Let_def)
  have in1: "rnd64 (667 / 1000) = Fin (3003900951456121 / 4503599627370496)"
    by (subst rnd64_in_binade [of "- 1"]) (simp_all add: pow2_def py_round_def Let_def)
  have in2: "rnd64 (5 / 10) = Fin (1 / 2)"
    by (subst rnd64_in_binade [of "- 1"]) (simp_all add: pow2_def py_round_def Let_def)
  have in3: "rnd64 (3 / 10) = Fin (5404319552844595 / 18014398509481984)"
    by (subst rnd64_in_binade [of "- 2"]) (simp_all add: pow2_def py_round_def Let_def)
  have in4: "rnd64 (real_of_int (max 0 (min 100 88)) / 100) = Fin (7926335344172073 / 9007199254740992)"
    by (subst rnd64_in_binade [of "- 1"]) (simp_all add: pow2_def py_round_def Let_def)
  have cl0: "clamp_unit (float_or_zero (Fin (3602879701896397 / 4503599627370496))) = Fin (3602879701896397 / 4503599627370496)"
    by (simp add: clamp_unit_def float_or_zero_def fl_truthy_def Let_def)
  have cl1: "clamp_unit (float_or_zero (Fin (3003900951456121 / 4503599627370496))) = Fin (3003900951456121 / 4503599627370496)"
    by (simp add: clamp_unit_def float_or_zero_def fl_truthy_def Let_def)
  have cl2: "clamp_unit (float_or_zero (Fin (1 / 2))) = Fin (1 / 2)"
    by (simp add: clamp_unit_def float_or_zero_def fl_truthy_def Let_def)
  have cl3: "clamp_unit (float_or_zero (Fin (5404319552844595 / 18014398509481984))) = Fin (5404319552844595 / 18014398509481984)"
    by (simp add: clamp_unit_def float_or_zero_def fl_truthy_def Let_def)
  have cl4: "clamp_unit (float_or_zero (Fin (7926335344172073 / 9007199254740992))) = Fin (7926335344172073 / 9007199254740992)"
    by (simp add: clamp_unit_def float_or_zero_def fl_truthy_def Let_def)
  have w0: "rnd64 (10 / 100) = Fin (3602879701896397 / 36028797018963968)"
    by (subst rnd64_in_binade [of "- 4"]) (simp_all add: pow2_def py_round_def Let_def)
  have w1: "rnd64 (20 / 100) = Fin (3602879701896397 / 18014398509481984)"
    by (subst rnd64_in_binade [of "- 3"]) (simp_all add: pow2_def py_round_def Let_def)
  have w2: "rnd64 (15 / 100) = Fin (5404319552844595 / 36028797018963968)"
    by (subst rnd64_in_binade [of "- 3"]) (simp_all add: pow2_def py_round_def Let_def)
  have w4: "rnd64 (45 / 100) = Fin (8106479329266893 / 18014398509481984)"
    by (subst rnd64_in_binade [of "- 2"]) (simp_all add: pow2_def py_round_def Let_def)
  have p0: "fl_mul (Fin (3602879701896397 / 36028797018963968)) (Fin (3602879701896397 / 4503599627370496)) = Fin (1441151880758559 / 18014398509481984)"
    by (simp only: fl_mul.simps, subst rnd64_in_binade [of "- 4"]) (simp_all add: pow2_def py_round_def Let_def)
  have p1: "fl_mul (Fin (3602879701896397 / 18014398509481984)) (Fin (3003900951456121 / 4503599627370496)) = Fin (2403120761164897 / 18014398509481984)"
    by (simp only: fl_mul.simps, subst rnd64_in_binade [of "- 3"]) (simp_all add: pow2_def py_round_def Let_def)
  have p2: "fl_mul (Fin (5404319552844595 / 36028797018963968)) (Fin (1 / 2)) = Fin (5404319552844595 / 72057594037927936)"
    by (simp only: fl_mul.simps, subst rnd64_in_binade [of "- 4"]) (simp_all add: pow2_def py_round_def Let_def)
  have p3: "fl_mul (Fin (3602879701896397 / 36028797018963968)) (Fin (5404319552844595 / 18014398509481984)) = Fin (1080863910568919 / 36028797018963968)"
    by (simp only: fl_mul.simps, subst rnd64_in_binade [of "- 6"]) (simp_all add: pow2_def py_round_def Let_def)
  have p4: "fl_mul (Fin (8106479329266893 / 18014398509481984)) (Fin (7926335344172073 / 9007199254740992)) = Fin (3566850904877433 / 9007199254740992)"
    by (simp only: fl_mul.simps, subst rnd64_in_binade [of "- 2"]) (simp_all add: pow2_def py_round_def Let_def)
  have s1: "fl_add (Fin (1441151880758559 / 18014398509481984)) (Fin (2403120761164897 / 18014398509481984)) = Fin (30033380015027 / 140737488355328)"
    by (simp only: fl_add.simps, subst rnd64_in_binade [of "- 3"]) (simp_all add: pow2_def py_round_def Let_def)
  have s2: "fl_add (Fin (30033380015027 / 140737488355328)) (Fin (5404319552844595 / 72057594037927936)) = Fin (5195352530134605 / 18014398509481984)"
    by (simp only: fl_add.simps, subst rnd64_in_binade [of "- 2"]) (simp_all add: pow2_def py_round_def Let_def)
  have s3: "fl_add (Fin (5195352530134605 / 18014398509481984)) (Fin (1080863910568919 / 36028797018963968)) = Fin (716973060677383 / 2251799813685248)"
    by (simp only: fl_add.simps, subst rnd64_in_binade [of "- 2"]) (simp_all add: pow2_def py_round_def Let_def)
  have s4: "fl_add (Fin (716973060677383 / 2251799813685248)) (Fin (3566850904877433 / 9007199254740992)) = Fin (6434743147586965 / 9007199254740992)"
    by (simp only: fl_add.simps, subst rnd64_in_binade [of "- 1"]) (simp_all add: pow2_def py_round_def Let_def)
  have val: "fl_mul (Fin 100) (Fin (6434743147586965 / 9007199254740992)) = Fin (1256785771013079 / 17592186044416)"
    by (simp only: fl_mul.simps, subst rnd64_in_binade [of "6"]) (simp_all add: pow2_def py_round_def Let_def)
  show ?thesis
    unfolding compute_final_score_def Let_def in0 in1 in2 in3 in4 cl0 cl1 cl2 cl3 cl4 w0 w1 w2 w4 p0 p1 p2 p3 p4 s1 s2 s3 s4 val
    by (simp add: py_round_float_def py_round_def Let_def)
qed

text \<open>
  Claim C3, as amended.  With an AI relevance of 88 percent, a skills score of 0.667, an
  experience score of 0.5, an education score of 0.3 and a semantic score of 0.8 (each the
  float of its decimal literal) the function returns 71; the weighted sum is 0.7144 and
  one hundred times it is 71.44.
\<close>

theorem final_score_worked_example:
  "compute_final_score (rnd64 (8 / 10)) (rnd64 (667 / 1000)) (rnd64 (5 / 10)) (rnd64 (3 / 10))
       (rnd64 (real_of_int (max 0 (min 100 88)) / 100)) = Inr 71
   \<and> py_round (100 * (0.45 * 0.88 + 0.20 * 0.667 + 0.15 * 0.5 + 0.10 * 0.3 + 0.10 * 0.8)) = 71
   \<and> 100 * (0.45 * 0.88 + 0.20 * 0.667 + 0.15 * 0.5 + 0.10 * 0.3 + 0.10 * 0.8) = (71.44 :: real)"
proof -
  have code: "compute_final_score (rnd64 (8 / 10)) (rnd64 (667 / 1000)) (rnd64 (5 / 10))
       (rnd64 (3 / 10)) (rnd64 (real_of_int (max 0 (min 100 88)) / 100)) = Inr 71"
    by (rule worked_example_value)
  have "py_round (100 * (0.45 * 0.88 + 0.20 * 0.667 + 0.15 * 0.5 + 0.10 * 0.3 + 0.10 * 0.8)) = 71"
    by (simp add: py_round_def Let_def)
  moreover have "100 * (0.45 * 0.88 + 0.20 * 0.667 + 0.15 * 0.5 + 0.10 * 0.3 + 0.10 * 0.8)
      = (71.44 :: real)"
    by simp
  ultimately show ?thesis using code by blast
qed

text \<open>
  The value 58 that the worked example announces is not what the function returns, and
  one hundred times the weighted sum is not 58.34.
\<close>

theorem final_score_worked_example_not_58:
  "compute_final_score (rnd64 (8 / 10)) (rnd64 (667 / 1000)) (rnd64 (5 / 10)) (rnd64 (3 / 10))
       (rnd64 (real_of_int (max 0 (min 100 88)) / 100)) \<noteq> Inr 58
   \<and> 100 * (0.45 * 0.88 + 0.20 * 0.667 + 0.15 * 0.5 + 0.10 * 0.3 + 0.10 * 0.8) \<noteq> (58.34 :: real)"
proof -
  have code: "compute_final_score (rnd64 (8 / 10)) (rnd64 (667 / 1000)) (rnd64 (5 / 10))
       (rnd64 (3 / 10)) (rnd64 (real_of_int (max 0 (min 100 88)) / 100)) = Inr 71"
    by (rule worked_example_value)
  have "100 * (0.45 * 0.88 + 0.20 * 0.667 + 0.15 * 0.5 + 0.10 * 0.3 + 0.10 * 0.8)
      \<noteq> (58.34 :: real)"
    by simp
  with code show ?thesis by simp
qed

section \<open>Properties of the skills overlap\<close>

lemma f1_guard_is_harmonic_mean:
  assumes "0 \<le> p" and "0 \<le> r"
  shows "(if p + r \<le> 0 then 0 else (2 * p * r) / (p + r)) = f1_harmonic_mean p r"
  using assms by (auto simp: f1_harmonic_mean_def add_nonneg_eq_0_iff)

lemma skills_overlap_score_unfolded:
  assumes "js \<noteq> []"
  shows "skills_overlap_score rs js =
     (let matched = filter (\<lambda>j. j \<in> set rs) js;
          missing = filter (\<lambda>j. j \<notin> set rs) js;
          recall = real (length matched) / real (length js);
          precision = (if rs = [] then 0 else real (length matched) / real (card (set rs)))
      in (max 0 (min 1 (f1_harmonic_mean precision recall)), take 12 matched, take 8 missing))"
proof -
  define matched where "matched = filter (\<lambda>j. j \<in> set rs) js"
  define recall where "recall = real (length matched) / real (length js)"
  define precision where
    "precision = (if rs = [] then 0 else real (length matched) / real (card (set rs)))"
  have p0: "0 \<le> precision" and r0: "0 \<le> recall"
    by (simp_all add: precision_def recall_def)
  have len: "max 1 (length js) = length js"
    using assms by (cases js) simp_all
  have crd: "max 1 (card (set rs)) = card (set rs)" if "rs \<noteq> []"
  proof -
    from that have "0 < card (set rs)" by (simp add: card_gt_0_iff)
    then show ?thesis by simp
  qed
  have pe: "(if set rs \<noteq> {} then real (length matched) / real (max 1 (card (set rs))) else 0)
      = precision"
    using crd by (auto simp: precision_def)
  show ?thesis
    using assms f1_guard_is_harmonic_mean [OF p0 r0]
    unfolding skills_overlap_score_def Let_def len pe matched_def [symmetric]
      recall_def [symmetric] precision_def [symmetric]
    by (auto simp: max_def min_def)
qed

text \<open>
  Claim C4.  For a non-empty list of job tokens, the score is the harmonic mean of
  recall (matched over job tokens) and precision (matched over the distinct resume
  tokens, 0 when there are none), clamped to the unit interval; the matched list is cut
  to 12 and the missing list to 8 entries.  For the job tokens python, fastapi, sql and
  the resume tokens python, fastapi, aws the result is 2/3 with python and fastapi
  matched and sql missing.
\<close>

theorem skills_overlap_score_f1:
  assumes "js \<noteq> []"
  shows "skills_overlap_score rs js =
     (let matched = filter (\<lambda>j. j \<in> set rs) js;
          missing = filter (\<lambda>j. j \<notin> set rs) js;
          recall = real (length matched) / real (length js);
          precision = (if rs = [] then 0 else real (length matched) / real (card (set rs)))
      in (max 0 (min 1 (f1_harmonic_mean precision recall)), take 12 matched, take 8 missing))
    \<and> length (fst (snd (skills_overlap_score rs js))) \<le> 12
    \<and> length (snd (snd (skills_overlap_score rs js))) \<le> 8
    \<and> skills_overlap_score [''python'', ''fastapi'', ''aws''] [''python'', ''fastapi'', ''sql'']
           = (2 / 3, [''python'', ''fastapi''], [''sql''])"
proof (intro conjI)
  note general = skills_overlap_score_unfolded [OF assms, of rs]
  show "skills_overlap_score rs js =
     (let matched = filter (\<lambda>j. j \<in> set rs) js;
          missing = filter (\<lambda>j. j \<notin> set rs) js;
          recall = real (length matched) / real (length js);
          precision = (if rs = [] then 0 else real (length matched) / real (card (set rs)))
      in (max 0 (min 1 (f1_harmonic_mean precision recall)), take 12 matched, take 8 missing))"
    by (rule general)
  show "length (fst (snd (skills_overlap_score rs js))) \<le> 12"
    unfolding general by (simp add: Let_def)
  show "length (snd (snd (skills_overlap_score rs js))) \<le> 8"
    unfolding general by (simp add: Let_def)
  show "skills_overlap_score [''python'', ''fastapi'', ''aws''] [''python'', ''fastapi'', ''sql'']
           = (2 / 3, [''python'', ''fastapi''], [''sql''])"
    by (simp add: skills_overlap_score_def Let_def)
qed

theorem skills_overlap_score_f1_witness:
  "[''python'', ''sql'', ''docker''] \<noteq> []
   \<and> skills_overlap_score [''python''] [''python'', ''sql'', ''docker'']
       = (1 / 2, [''python''], [''sql'', ''docker''])"
  using skills_overlap_score_f1 [of "[''python'', ''sql'', ''docker'']" "[''python'']"]
  by (simp add: Let_def f1_harmonic_mean_def)

section \<open>Properties of the cosine similarity\<close>

lemma fold_cosine_step:
  "fold cosine_step xys (d, na, nb) =
     (d + (\<Sum>(x, y)\<leftarrow>xys. x * y), na + (\<Sum>(x, y)\<leftarrow>xys. x * x), nb + (\<Sum>(x, y)\<leftarrow>xys. y * y))"
  by (induction xys arbitrary: d na nb) (auto simp: cosine_step_def)

lemma sum_list_zip_left:
  "length a = length b \<Longrightarrow> (\<Sum>(x, y)\<leftarrow>zip a b. f x) = (\<Sum>x\<leftarrow>a. f x)"
  by (induction a b rule: list_induct2) auto

lemma sum_list_zip_right:
  "length a = length b \<Longrightarrow> (\<Sum>(x, y)\<leftarrow>zip a b. f y) = (\<Sum>y\<leftarrow>b. f y)"
  by (induction a b rule: list_induct2) auto

text \<open>
  Claim C8.  The cosine similarity is 0 when a vector is empty, when the lengths differ
  and when a vector has norm zero; and no call ends in a division by zero.
\<close>

theorem cosine_similarity_guards:
  "(a = [] \<or> b = [] \<or> length a \<noteq> length b
      \<or> sqrt (\<Sum>x\<leftarrow>a. x * x) = 0 \<or> sqrt (\<Sum>y\<leftarrow>b. y * y) = 0
     \<longrightarrow> cosine_similarity a b = Inr 0)
   \<and> cosine_similarity a b \<noteq> Inl ZeroDivisionError"
  by (auto simp: cosine_similarity_def fold_cosine_step sum_list_zip_left sum_list_zip_right
        py_truediv_def split: prod.splits)

theorem cosine_similarity_guards_witness:
  "sqrt (\<Sum>x\<leftarrow>[0, 0 :: real]. x * x) = 0
   \<and> cosine_similarity [0, 0] [3, 4] = Inr 0
   \<and> cosine_similarity [0, 0] [3, 4] \<noteq> Inl ZeroDivisionError"
  using cosine_similarity_guards [of "[0, 0]" "[3, 4]"]
  by simp


section \<open>Properties of the AI match cache\<close>

lemma sha256_job_text:
  "sha256_hexdigest ''Need Python FastAPI SQL''
     = ''e5f651799d600579e51c27e5f61cc23e3a288fe3854625261135616f92ce71c0''"
  by code_simp

lemma sha256_resume_text:
  "sha256_hexdigest ''Python, FastAPI, AWS''
     = ''ee7fb38af5ecfdeb3c8c154c6da1827b2b1d4912efcfaffda3ce8cb1ffc74fcd''"
  by code_simp

lemma sha256_truncated_pair:
  "sha256_hexdigest
     ''e5f651799d600579e51c27e5f61cc23e:ee7fb38af5ecfdeb3c8c154c6da1827b:gemini-2.0-flash''
     = ''73a7d5e695b1d3d331300b6165e7a9f19a812cebddc822a018caa89e5bfa7c0d''"
  by code_simp

lemma sha256_full_pair:
  "sha256_hexdigest
     ''e5f651799d600579e51c27e5f61cc23e3a288fe3854625261135616f92ce71c0:ee7fb38af5ecfdeb3c8c154c6da1827b2b1d4912efcfaffda3ce8cb1ffc74fcd:gemini-2.0-flash''
     = ''f1dc9dbaf6a4ff900f4a920cbf62728a8168e3ab802381cde31b38ba5d5a9baa''"
  by code_simp

lemma sha256_id_pair:
  "sha256_hexdigest ''12:34:gemini-2.0-flash''
     = ''40ee99aa0e0e0519586784aa2b8e1f80b2fc6e9d1608b6c028b59ee4f41e5936''"
  by code_simp

lemma py_str_int_12_34: "py_str_int 12 = ''12''" "py_str_int 34 = ''34''"
  by code_simp+

lemma generate_cache_key_content:
  "generate_cache_key ''gemini-2.0-flash'' None None (Some ''Need Python FastAPI SQL'')
       (Some ''Python, FastAPI, AWS'') None
     = Inr ''73a7d5e695b1d3d331300b6165e7a9f19a812cebddc822a018caa89e5bfa7c0d''"
  by (simp add: generate_cache_key_def str_or_def sha256_job_text sha256_resume_text
        sha256_truncated_pair)

text \<open>
  Claim C5, as amended.  With both identifiers the key is the SHA-256 hex digest of
  \<open>job_id:resume_id:model\<close>.  Without one of them, and with both texts, it is the digest
  of the first 32 hex characters of the digest of the job text, the first 32 hex
  characters of the digest of the resume text and the model name, joined by colons.
  The model name is the argument, or the configured one when the argument is absent or
  empty.
\<close>

theorem generate_cache_key_formula:
  "generate_cache_key G (Some j) (Some r) job_text resume_text mv
     = Inr (sha256_hexdigest (py_str_int j @ '':'' @ py_str_int r @ '':'' @ str_or mv G))
   \<and> (job_id = None \<or> resume_id = None \<longrightarrow>
        generate_cache_key G job_id resume_id (Some jt) (Some rt) mv
          = Inr (sha256_hexdigest
                   (take 32 (sha256_hexdigest jt) @ '':'' @ take 32 (sha256_hexdigest rt)
                    @ '':'' @ str_or mv G)))"
  by (auto simp: generate_cache_key_def Let_def str_or_def split: option.splits)

theorem generate_cache_key_formula_witness:
  "generate_cache_key ''gemini-2.0-flash'' (Some 12) (Some 34) None None None
     = Inr ''40ee99aa0e0e0519586784aa2b8e1f80b2fc6e9d1608b6c028b59ee4f41e5936''
   \<and> generate_cache_key ''gemini-2.0-flash'' None (Some 34) (Some ''Need Python FastAPI SQL'')
         (Some ''Python, FastAPI, AWS'') None
     = Inr ''73a7d5e695b1d3d331300b6165e7a9f19a812cebddc822a018caa89e5bfa7c0d''"
  using generate_cache_key_formula [of "''gemini-2.0-flash''" 12 34 None None None None "Some 34"
      "''Need Python FastAPI SQL''" "''Python, FastAPI, AWS''"]
  by (simp add: str_or_def py_str_int_12_34 sha256_id_pair sha256_job_text sha256_resume_text
        sha256_truncated_pair)

text \<open>
  The key of two texts is not the digest of their two full digests joined with the
  model name: for the job text \<open>Need Python FastAPI SQL\<close> and the resume text
  \<open>Python, FastAPI, AWS\<close> the two differ.
\<close>

theorem generate_cache_key_not_full_digests:
  "generate_cache_key ''gemini-2.0-flash'' None None (Some ''Need Python FastAPI SQL'')
       (Some ''Python, FastAPI, AWS'') None
     \<noteq> Inr (sha256_hexdigest
              (sha256_hexdigest ''Need Python FastAPI SQL'' @ '':''
               @ sha256_hexdigest ''Python, FastAPI, AWS'' @ '':'' @ ''gemini-2.0-flash''))"
  by (simp add: generate_cache_key_content sha256_job_text sha256_resume_text sha256_full_pair)

lemma query_cache_first_None_iff:
  "query_cache_first db k = None \<longleftrightarrow> (\<forall>r \<in> set db. amc_cache_key r \<noteq> k)"
  by (auto simp: query_cache_first_def find_None_iff)

lemma query_cache_first_SomeD:
  "query_cache_first db k = Some y \<Longrightarrow> y \<in> set db \<and> amc_cache_key y = k"
  by (auto simp: query_cache_first_def find_Some_iff)

lemma cache_match_result_cases:
  "cache_match_result dumps G now db mr job_id resume_id job_text resume_text lat mv = (ok, db')
   \<Longrightarrow> (ok \<longrightarrow> (\<exists>k. generate_cache_key G job_id resume_id job_text resume_text mv = Inr k
                  \<and> (\<exists>r \<in> set db'. amc_cache_key r = k)))
       \<and> (\<not> ok \<longrightarrow> db' = db)"
  by (auto simp: cache_match_result_def Let_def query_cache_first_None_iff
        dest: query_cache_first_SomeD split: option.splits if_splits sum.splits)

lemma cache_match_result_existing:
  assumes "generate_cache_key G job_id resume_id job_text resume_text mv = Inr k"
    and "\<exists>r \<in> set db. amc_cache_key r = k"
  shows "cache_match_result dumps G now db match_result job_id resume_id job_text resume_text
      lat mv = (True, db)"
  using assms by (auto simp: cache_match_result_def Let_def query_cache_first_None_iff)

text \<open>
  Claim C6.  When a row with the computed key exists, \<open>cache_match_result\<close> returns
  \<open>True\<close> and leaves the database as it was, whatever result it is given.  Hence, after
  a write that returned \<open>True\<close>, a second write for the same identifiers and model, with
  any result, latency and time, returns \<open>True\<close> and leaves the database as the first
  write left it: one key never gets two stored results.  A write that returns \<open>False\<close>
  has stored nothing.
\<close>

theorem cache_match_result_existing_is_noop:
  "(generate_cache_key G job_id resume_id job_text resume_text mv = Inr k
      \<and> (\<exists>r \<in> set db. amc_cache_key r = k)
     \<longrightarrow> cache_match_result dumps G now db match_result job_id resume_id job_text resume_text
           lat mv = (True, db))
   \<and> (cache_match_result dumps G now db match_result job_id resume_id job_text resume_text
        lat mv = (True, db')
     \<longrightarrow> cache_match_result dumps' G now' db' match_result' job_id resume_id job_text
           resume_text lat' mv = (True, db'))
   \<and> (cache_match_result dumps G now db match_result job_id resume_id job_text resume_text
        lat mv = (False, db')
     \<longrightarrow> db' = db)"
proof (intro conjI impI)
  assume "generate_cache_key G job_id resume_id job_text resume_text mv = Inr k
      \<and> (\<exists>r \<in> set db. amc_cache_key r = k)"
  then show "cache_match_result dumps G now db match_result job_id resume_id job_text
      resume_text lat mv = (True, db)"
    using cache_match_result_existing by blast
next
  assume first: "cache_match_result dumps G now db match_result job_id resume_id job_text
      resume_text lat mv = (True, db')"
  from cache_match_result_cases [OF first] obtain k
    where "generate_cache_key G job_id resume_id job_text resume_text mv = Inr k"
      and "\<exists>r \<in> set db'. amc_cache_key r = k"
    by blast
  then show "cache_match_result dumps' G now' db' match_result' job_id resume_id job_text
      resume_text lat' mv = (True, db')"
    by (rule cache_match_result_existing)
next
  assume "cache_match_result dumps G now db match_result job_id resume_id job_text
      resume_text lat mv = (False, db')"
  from cache_match_result_cases [OF this] show "db' = db" by simp
qed

theorem cache_match_result_existing_is_noop_witness:
  "cache_match_result (\<lambda>v. ''{}'') ''gemini-2.0-flash'' 7 []
       [(''score'', JInt 80)] (Some 12) (Some 34) None None None None
     = (True,
        [\<lparr>amc_id = 1,
          amc_cache_key = ''40ee99aa0e0e0519586784aa2b8e1f80b2fc6e9d1608b6c028b59ee4f41e5936'',
          amc_job_id = 12, amc_resume_id = 34, amc_model_version = ''gemini-2.0-flash'',
          amc_match_result_json = ''{}'', amc_match_score = Some 80,
          amc_api_latency_ms = None, amc_created_at = 7, amc_expires_at = None\<rparr>])
   \<and> cache_match_result (\<lambda>v. ''{}'') ''gemini-2.0-flash'' 9
       [\<lparr>amc_id = 1,
          amc_cache_key = ''40ee99aa0e0e0519586784aa2b8e1f80b2fc6e9d1608b6c028b59ee4f41e5936'',
          amc_job_id = 12, amc_resume_id = 34, amc_model_version = ''gemini-2.0-flash'',
          amc_match_result_json = ''{}'', amc_match_score = Some 80,
          amc_api_latency_ms = None, amc_created_at = 7, amc_expires_at = None\<rparr>]
       [(''score'', JInt 15)] (Some 12) (Some 34) None None (Some 250) None
     = (True,
        [\<lparr>amc_id = 1,
          amc_cache_key = ''40ee99aa0e0e0519586784aa2b8e1f80b2fc6e9d1608b6c028b59ee4f41e5936'',
          amc_job_id = 12, amc_resume_id = 34, amc_model_version = ''gemini-2.0-flash'',
          amc_match_result_json = ''{}'', amc_match_score = Some 80,
          amc_api_latency_ms = None, amc_created_at = 7, amc_expires_at = None\<rparr>])"
proof -
  have first: "cache_match_result (\<lambda>v. ''{}'') ''gemini-2.0-flash'' 7 []
       [(''score'', JInt 80)] (Some 12) (Some 34) None None None None
     = (True,
        [\<lparr>amc_id = 1,
          amc_cache_key = ''40ee99aa0e0e0519586784aa2b8e1f80b2fc6e9d1608b6c028b59ee4f41e5936'',
          amc_job_id = 12, amc_resume_id = 34, amc_model_version = ''gemini-2.0-flash'',
          amc_match_result_json = ''{}'', amc_match_score = Some 80,
          amc_api_latency_ms = None, amc_created_at = 7, amc_expires_at = None\<rparr>])"
    by (simp add: cache_match_result_def generate_cache_key_def str_or_def py_str_int_12_34
          sha256_id_pair query_cache_first_def match_score_of_def fits_db_integer_def
          opt_fits_db_integer_def next_cache_id_def Let_def)
  from cache_match_result_existing_is_noop
      [where dumps = "\<lambda>v. ''{}''" and G = "''gemini-2.0-flash''" and now = 7 and db = "[]"
         and match_result = "[(''score'', JInt 80)]" and job_id = "Some 12"
         and resume_id = "Some 34" and job_text = None and resume_text = None and lat = None
         and mv = None
         and db' = "[\<lparr>amc_id = 1,
          amc_cache_key = ''40ee99aa0e0e0519586784aa2b8e1f80b2fc6e9d1608b6c028b59ee4f41e5936'',
          amc_job_id = 12, amc_resume_id = 34, amc_model_version = ''gemini-2.0-flash'',
          amc_match_result_json = ''{}'', amc_match_score = Some 80,
          amc_api_latency_ms = None, amc_created_at = 7, amc_expires_at = None\<rparr>]"
         and dumps' = "\<lambda>v. ''{}''" and now' = 9 and match_result' = "[(''score'', JInt 15)]"
         and lat' = "Some 250",
       THEN conjunct2, THEN conjunct1, THEN mp, OF first]
  have "cache_match_result (\<lambda>v. ''{}'') ''gemini-2.0-flash'' 9
       [\<lparr>amc_id = 1,
          amc_cache_key = ''40ee99aa0e0e0519586784aa2b8e1f80b2fc6e9d1608b6c028b59ee4f41e5936'',
          amc_job_id = 12, amc_resume_id = 34, amc_model_version = ''gemini-2.0-flash'',
          amc_match_result_json = ''{}'', amc_match_score = Some 80,
          amc_api_latency_ms = None, amc_created_at = 7, amc_expires_at = None\<rparr>]
       [(''score'', JInt 15)] (Some 12) (Some 34) None None (Some 250) None
     = (True,
        [\<lparr>amc_id = 1,
          amc_cache_key = ''40ee99aa0e0e0519586784aa2b8e1f80b2fc6e9d1608b6c028b59ee4f41e5936'',
          amc_job_id = 12, amc_resume_id = 34, amc_model_version = ''gemini-2.0-flash'',
          amc_match_result_json = ''{}'', amc_match_score = Some 80,
          amc_api_latency_ms = None, amc_created_at = 7, amc_expires_at = None\<rparr>])" .
  with first show ?thesis by (rule conjI)
qed

section \<open>Properties of the embedding cache\<close>

lemma fold_newer_row_mem: "fold newer_row rs r \<in> set (r # rs)"
  by (induction rs arbitrary: r) (auto simp: newer_row_def)

lemma latest_embedding_SomeD:
  assumes "latest_embedding db et eid m = Some r"
  shows "r \<in> set db \<and> emb_key r = (et, eid, m)"
proof -
  let ?rows = "filter (\<lambda>r. emb_key r = (et, eid, m)) db"
  from assms obtain x xs where split: "?rows = x # xs" and r: "r = fold newer_row xs x"
    by (auto simp: latest_embedding_def split: list.splits)
  have "r \<in> set ?rows"
    unfolding split r by (rule fold_newer_row_mem)
  then show ?thesis by simp
qed

lemma latest_embedding_None_iff:
  "latest_embedding db et eid m = None \<longleftrightarrow> (\<forall>r \<in> set db. emb_key r \<noteq> (et, eid, m))"
proof -
  have "latest_embedding db et eid m = None
      \<longleftrightarrow> filter (\<lambda>r. emb_key r = (et, eid, m)) db = []"
    by (simp add: latest_embedding_def split: list.splits)
  then show ?thesis
    by (simp add: filter_empty_conv)
qed

lemma filter_key_single:
  assumes "distinct (map emb_key db)" and "r \<in> set db"
  shows "filter (\<lambda>x. emb_key x = emb_key r) db = [r]"
  using assms
proof (induction db)
  case Nil
  then show ?case by simp
next
  case (Cons a db)
  show ?case
  proof (cases "a = r")
    case True
    with Cons.prems have "\<forall>x \<in> set db. emb_key x \<noteq> emb_key r"
      by (auto simp: image_iff)
    then have "filter (\<lambda>x. emb_key x = emb_key r) db = []"
      by (simp add: filter_empty_conv)
    with True show ?thesis by simp
  next
    case False
    with Cons.prems have mem: "r \<in> set db" and "emb_key a \<noteq> emb_key r"
      by (auto simp: image_iff)
    with Cons show ?thesis by simp
  qed
qed

lemma latest_embedding_unique:
  assumes "distinct (map emb_key db)" and "r \<in> set db" and "emb_key r = (et, eid, m)"
  shows "latest_embedding db et eid m = Some r"
  using filter_key_single [OF assms(1,2)] assms(3)
  by (simp add: latest_embedding_def)

lemma fold_max_ge: "x \<in> set xs \<Longrightarrow> x \<le> fold max xs (a :: nat)"
proof (induction xs arbitrary: a)
  case Nil
  then show ?case by simp
next
  case (Cons y ys)
  have mono: "b \<le> fold max ys b" for b :: nat
    by (induction ys arbitrary: b) (auto intro: order_trans [OF max.cobounded2])
  from Cons show ?case
    using mono [of "max y a"] by auto
qed

lemma next_embedding_id_fresh: "next_embedding_id db \<notin> emb_id ` set db"
proof
  assume "next_embedding_id db \<in> emb_id ` set db"
  then have "next_embedding_id db \<le> fold max (map emb_id db) 0"
    by (intro fold_max_ge) simp
  then show False by (simp add: next_embedding_id_def)
qed

lemma update_in_place_ids:
  "emb_id r' = emb_id r \<Longrightarrow>
   map emb_id (map (\<lambda>x. if emb_id x = emb_id r then r' else x) db) = map emb_id db"
  by (induction db) auto

lemma update_in_place_keys:
  assumes "distinct (map emb_id db)" and "r \<in> set db" and "emb_key r' = emb_key r"
  shows "map emb_key (map (\<lambda>x. if emb_id x = emb_id r then r' else x) db) = map emb_key db"
proof -
  have "x = r" if "x \<in> set db" and "emb_id x = emb_id r" for x
    using assms(1,2) that by (meson distinct_map inj_onD)
  with assms(3) show ?thesis
    by (auto simp: o_def)
qed

lemma update_in_place_mem:
  "r \<in> set db \<Longrightarrow> r' \<in> set (map (\<lambda>x. if emb_id x = emb_id r then r' else x) db)"
  by (auto simp: image_iff intro!: bexI [of _ r])

text \<open>What a successful call returns, case by case.\<close>

lemma get_or_create_embedding_cases:
  assumes "get_or_create_embedding en M embedder dumps now db et eid text model = Inr (res, db')"
  defines "m \<equiv> str_or model M"
  defines "h \<equiv> text_hash (normalize_text text) (str_or model M)"
  shows "(res = None \<and> db' = db)
    \<or> (\<exists>r. res = Some r \<and> db' = db \<and> latest_embedding db et eid m = Some r
           \<and> emb_text_hash r = h \<and> emb_vector_json r \<noteq> [])
    \<or> (\<exists>r v. latest_embedding db et eid m = Some r \<and> v \<noteq> []
           \<and> res = Some (r\<lparr>emb_text_hash := h, emb_vector_json := dumps (JArr (map (\<lambda>x. JFloat (Fin x)) v)),
                             emb_dim := length v, emb_updated_at := now\<rparr>)
           \<and> db' = map (\<lambda>x. if emb_id x = emb_id r
                  then r\<lparr>emb_text_hash := h, emb_vector_json := dumps (JArr (map (\<lambda>x. JFloat (Fin x)) v)),
                             emb_dim := length v, emb_updated_at := now\<rparr> else x) db)
    \<or> (\<exists>v. latest_embedding db et eid m = None \<and> v \<noteq> []
           \<and> res = Some \<lparr>emb_id = next_embedding_id db, emb_entity_type = et,
                  emb_entity_id = eid, emb_model = m, emb_dim = length v, emb_text_hash = h,
                  emb_vector_json = dumps (JArr (map (\<lambda>x. JFloat (Fin x)) v)), emb_created_at = now,
                  emb_updated_at = now\<rparr>
           \<and> db' = db @ [\<lparr>emb_id = next_embedding_id db, emb_entity_type = et,
                  emb_entity_id = eid, emb_model = m, emb_dim = length v, emb_text_hash = h,
                  emb_vector_json = dumps (JArr (map (\<lambda>x. JFloat (Fin x)) v)), emb_created_at = now,
                  emb_updated_at = now\<rparr>])"
  using assms(1) unfolding m_def h_def get_or_create_embedding_def Let_def
  by (auto split: if_splits option.splits sum.splits)

lemma get_or_create_embedding_preserves:
  assumes pk: "distinct (map emb_id db)" and inv: "distinct (map emb_key db)"
    and call: "get_or_create_embedding en M embedder dumps now db et eid text model = Inr (res, db')"
  shows "distinct (map emb_id db') \<and> distinct (map emb_key db')
    \<and> ((\<exists>r \<in> set db. emb_key r = (et, eid, str_or model M))
         \<longrightarrow> map emb_id db' = map emb_id db \<and> map emb_key db' = map emb_key db)"
proof -
  let ?m = "str_or model M"
  from get_or_create_embedding_cases [OF call]
  consider (same) "db' = db"
    | (update) r r' where "latest_embedding db et eid ?m = Some r" "emb_id r' = emb_id r"
        "emb_key r' = emb_key r" "db' = map (\<lambda>x. if emb_id x = emb_id r then r' else x) db"
    | (insert) r' where "latest_embedding db et eid ?m = None"
        "emb_id r' = next_embedding_id db" "emb_key r' = (et, eid, ?m)" "db' = db @ [r']"
  proof (elim disjE exE conjE, goal_cases)
    case 1
    with that(1) show ?case by blast
  next
    case (2 r)
    with that(1) show ?case by blast
  next
    case (3 r v)
    let ?r' = "r\<lparr>emb_text_hash := text_hash (normalize_text text) (str_or model M),
                   emb_vector_json := dumps (JArr (map (\<lambda>x. JFloat (Fin x)) v)),
                   emb_dim := length v, emb_updated_at := now\<rparr>"
    have "emb_id ?r' = emb_id r" and "emb_key ?r' = emb_key r"
      by (simp_all add: emb_key_def)
    with 3 that(2) [of r ?r'] show ?case by blast
  next
    case (4 v)
    let ?r' = "\<lparr>emb_id = next_embedding_id db, emb_entity_type = et,
                  emb_entity_id = eid, emb_model = str_or model M, emb_dim = length v,
                  emb_text_hash = text_hash (normalize_text text) (str_or model M),
                  emb_vector_json = dumps (JArr (map (\<lambda>x. JFloat (Fin x)) v)), emb_created_at = now,
                  emb_updated_at = now\<rparr>"
    have "emb_id ?r' = next_embedding_id db" and "emb_key ?r' = (et, eid, str_or model M)"
      by (simp_all add: emb_key_def)
    with 4 that(3) [of ?r'] show ?case by blast
  qed
  then show ?thesis
  proof cases
    case same
    with pk inv show ?thesis by simp
  next
    case update
    from latest_embedding_SomeD [OF update(1)] have mem: "r \<in> set db" by simp
    have ids: "map emb_id db' = map emb_id db"
      unfolding update(4) by (rule update_in_place_ids [OF update(2)])
    have keys: "map emb_key db' = map emb_key db"
      unfolding update(4) by (rule update_in_place_keys [OF pk mem update(3)])
    from pk inv ids keys show ?thesis by simp
  next
    case insert
    have fresh_id: "emb_id r' \<notin> emb_id ` set db"
      unfolding insert(2) by (rule next_embedding_id_fresh)
    have fresh_key: "emb_key r' \<notin> emb_key ` set db"
      using insert(1) unfolding insert(3) latest_embedding_None_iff by force
    have no_row: "\<not> (\<exists>r \<in> set db. emb_key r = (et, eid, ?m))"
      using insert(1) unfolding latest_embedding_None_iff by blast
    from pk inv fresh_id fresh_key no_row show ?thesis
      unfolding insert(4) by simp
  qed
qed

lemma get_or_create_embedding_returned_row:
  assumes nonempty: "\<forall>v. dumps v \<noteq> []"
    and pk: "distinct (map emb_id db)"
    and call: "get_or_create_embedding en M embedder dumps now db et eid text model = Inr (Some row, db')"
  shows "row \<in> set db' \<and> emb_key row = (et, eid, str_or model M)
    \<and> emb_text_hash row = text_hash (normalize_text text) (str_or model M)
    \<and> emb_vector_json row \<noteq> []"
proof -
  from get_or_create_embedding_cases [OF call] show ?thesis
  proof (elim disjE exE conjE, goal_cases)
    case 1
    then show ?case by simp
  next
    case (2 r)
    with latest_embedding_SomeD [OF 2(3)] show ?case by simp
  next
    case (3 r v)
    from latest_embedding_SomeD [OF 3(1)] have "r \<in> set db" and "emb_key r = (et, eid, str_or model M)"
      by simp_all
    with 3 nonempty update_in_place_mem [of r db] show ?case
      by (simp add: emb_key_def)
  next
    case (4 v)
    with nonempty show ?case by (simp add: emb_key_def)
  qed
qed

lemma get_or_create_embedding_enabled:
  "get_or_create_embedding en M embedder dumps now db et eid text model = Inr (Some row, db')
   \<Longrightarrow> en \<and> normalize_text text \<noteq> []"
  by (auto simp: get_or_create_embedding_def Let_def split: if_splits)

lemma normalize_text_Nil: "normalize_text [] = []"
  by (simp add: normalize_text_def py_strip_def strip_where_def)

text \<open>
  On a table with one row per primary key and at most one row per
  (entity type, entity id, model):
  a successful call keeps both properties, and when a row for the key exists it
  leaves the list of primary keys and of entity keys as it was (nothing is inserted);
  after a call that returned a row, a second call for the same entity whose text
  normalises to the same string returns that very row, with its vector, and leaves the
  table unchanged (given that \<^verbatim>\<open>json.dumps\<close> never produces the empty string);
  a call whose text hashes differently from the stored row, and whose embedding is a
  non-empty vector, overwrites the hash, the vector, the dimension and the update time
  of that row in place.
\<close>

lemma get_or_create_embedding_single_rows:
  assumes pk: "distinct (map emb_id db)" and inv: "distinct (map emb_key db)"
  shows "(\<forall>res db'.
            get_or_create_embedding en M embedder dumps now db et eid text model = Inr (res, db')
            \<longrightarrow> distinct (map emb_id db') \<and> distinct (map emb_key db')
                \<and> ((\<exists>r \<in> set db. emb_key r = (et, eid, str_or model M))
                     \<longrightarrow> map emb_id db' = map emb_id db \<and> map emb_key db' = map emb_key db))
    \<and> (\<forall>row db1.
            (\<forall>v. dumps v \<noteq> [])
            \<and> get_or_create_embedding en M embedder dumps now db et eid text model
                = Inr (Some row, db1)
            \<and> normalize_text text2 = normalize_text text
            \<longrightarrow> get_or_create_embedding en M embedder2 dumps2 now2 db1 et eid text2 model
                = Inr (Some row, db1))
    \<and> (\<forall>r0 v.
            r0 \<in> set db \<and> emb_key r0 = (et, eid, str_or model M)
            \<and> emb_text_hash r0 \<noteq> text_hash (normalize_text text) (str_or model M)
            \<and> embed_text en embedder (normalize_text text) = Inr v \<and> v \<noteq> []
            \<longrightarrow> get_or_create_embedding en M embedder dumps now db et eid text model
                = Inr (Some (r0\<lparr>emb_text_hash := text_hash (normalize_text text) (str_or model M),
                                 emb_vector_json := dumps (JArr (map (\<lambda>x. JFloat (Fin x)) v)),
                                 emb_dim := length v, emb_updated_at := now\<rparr>),
                       map (\<lambda>x. if emb_id x = emb_id r0
                                 then r0\<lparr>emb_text_hash := text_hash (normalize_text text) (str_or model M),
                                         emb_vector_json := dumps (JArr (map (\<lambda>x. JFloat (Fin x)) v)),
                                         emb_dim := length v, emb_updated_at := now\<rparr>
                                 else x) db))"
proof (intro conjI allI impI)
  fix res db'
  assume "get_or_create_embedding en M embedder dumps now db et eid text model = Inr (res, db')"
  from get_or_create_embedding_preserves [OF pk inv this]
  show "distinct (map emb_id db')" and "distinct (map emb_key db')"
    by simp_all
next
  fix res db'
  assume "get_or_create_embedding en M embedder dumps now db et eid text model = Inr (res, db')"
    and "\<exists>r \<in> set db. emb_key r = (et, eid, str_or model M)"
  with get_or_create_embedding_preserves [OF pk inv]
  show "map emb_id db' = map emb_id db" and "map emb_key db' = map emb_key db"
    by blast+
next
  fix row db1
  assume h: "(\<forall>v. dumps v \<noteq> [])
    \<and> get_or_create_embedding en M embedder dumps now db et eid text model = Inr (Some row, db1)
    \<and> normalize_text text2 = normalize_text text"
  then have call: "get_or_create_embedding en M embedder dumps now db et eid text model
      = Inr (Some row, db1)" and same: "normalize_text text2 = normalize_text text"
    and nonempty: "\<forall>v. dumps v \<noteq> []"
    by simp_all
  from get_or_create_embedding_preserves [OF pk inv call]
  have inv1: "distinct (map emb_key db1)" by simp
  from get_or_create_embedding_returned_row [OF nonempty pk call]
  have row: "row \<in> set db1" "emb_key row = (et, eid, str_or model M)"
    "emb_text_hash row = text_hash (normalize_text text) (str_or model M)"
    "emb_vector_json row \<noteq> []"
    by simp_all
  from get_or_create_embedding_enabled [OF call] have en: en and norm: "normalize_text text \<noteq> []"
    by simp_all
  have latest: "latest_embedding db1 et eid (str_or model M) = Some row"
    by (rule latest_embedding_unique [OF inv1 row(1,2)])
  show "get_or_create_embedding en M embedder2 dumps2 now2 db1 et eid text2 model
      = Inr (Some row, db1)"
    using en norm row(3,4)
    by (simp add: get_or_create_embedding_def Let_def same latest)
next
  fix r0 :: embedding_row and v :: "real list"
  let ?h = "text_hash (normalize_text text) (str_or model M)"
  let ?r' = "r0\<lparr>emb_text_hash := ?h, emb_vector_json := dumps (JArr (map (\<lambda>x. JFloat (Fin x)) v)),
                 emb_dim := length v, emb_updated_at := now\<rparr>"
  assume h: "r0 \<in> set db \<and> emb_key r0 = (et, eid, str_or model M)
    \<and> emb_text_hash r0 \<noteq> ?h
    \<and> embed_text en embedder (normalize_text text) = Inr v \<and> v \<noteq> []"
  then have mem: "r0 \<in> set db" and key: "emb_key r0 = (et, eid, str_or model M)"
    and differs: "emb_text_hash r0 \<noteq> ?h"
    and emb: "embed_text en embedder (normalize_text text) = Inr v" and v: "v \<noteq> []"
    by simp_all
  from emb v have en: en
    by (auto simp: embed_text_def split: if_splits)
  from emb v en have norm: "normalize_text text \<noteq> []"
    by (auto simp: embed_text_def normalize_text_Nil)
  have latest: "latest_embedding db et eid (str_or model M) = Some r0"
    by (rule latest_embedding_unique [OF inv mem key])
  have "x = r0" if "x \<in> set db" and "emb_key x = emb_key r0" for x
    using inv mem that by (meson distinct_map inj_onD)
  then have ok: "\<not> unique_violation db ?r'"
    by (auto simp: unique_violation_def emb_key_def)
  from en emb have emb': "embed_text True embedder (normalize_text text) = Inr v"
    by simp
  show "get_or_create_embedding en M embedder dumps now db et eid text model
      = Inr (Some ?r', map (\<lambda>x. if emb_id x = emb_id r0 then ?r' else x) db)"
    using en norm differs v ok
    by (simp add: get_or_create_embedding_def Let_def latest emb')
qed

text \<open>
  A call for a key without a row, on a text with a non-empty embedding, appends one row
  for that key and returns it.
\<close>

lemma get_or_create_embedding_creates:
  assumes "normalize_text text \<noteq> []"
    and "\<forall>r \<in> set db. emb_key r \<noteq> (et, eid, str_or model M)"
    and "embed_text True embedder (normalize_text text) = Inr v" and "v \<noteq> []"
  shows "get_or_create_embedding True M embedder dumps now db et eid text model
    = Inr (Some \<lparr>emb_id = next_embedding_id db, emb_entity_type = et, emb_entity_id = eid,
                 emb_model = str_or model M, emb_dim = length v,
                 emb_text_hash = text_hash (normalize_text text) (str_or model M),
                 emb_vector_json = dumps (JArr (map (\<lambda>x. JFloat (Fin x)) v)),
                 emb_created_at = now, emb_updated_at = now\<rparr>,
           db @ [\<lparr>emb_id = next_embedding_id db, emb_entity_type = et, emb_entity_id = eid,
                  emb_model = str_or model M, emb_dim = length v,
                  emb_text_hash = text_hash (normalize_text text) (str_or model M),
                  emb_vector_json = dumps (JArr (map (\<lambda>x. JFloat (Fin x)) v)),
                  emb_created_at = now, emb_updated_at = now\<rparr>])"
proof -
  from assms(2) have none: "latest_embedding db et eid (str_or model M) = None"
    unfolding latest_embedding_None_iff by blast
  show ?thesis
    using assms(1,3,4)
    by (simp add: get_or_create_embedding_def Let_def none)
qed

lemma normalize_text_python_developer:
  "normalize_text '' Python   developer'' = ''Python developer''"
  "normalize_text ''Python developer '' = ''Python developer''"
  "normalize_text ''Python developer'' = ''Python developer''"
  by code_simp+

lemma text_hash_python_developer:
  "text_hash ''Python developer'' ''m''
     = ''af15e96ef79be6742e87ec170fbca2ff7326b8de18509cbcbaca26f6dac536b0''"
  by code_simp

text \<open>
  Claim C7, at an input where the code departs from it.  The table holds two rows for
  the key (job, 7, m), which its unique constraint on (entity type, entity id, model,
  text hash) allows: an older row with the hash of the text \<^verbatim>\<open>Python developer\<close> and
  a newer, authoritative row with another hash.  A call with the text
  \<^verbatim>\<open>Python developer\<close> reads the newer row only, finds another hash, embeds the text and
  writes its hash into the newer row, which the older row already holds: the commit
  raises \<^verbatim>\<open>IntegrityError\<close>, which the function does not catch.  The row is neither
  reused nor updated in place.
\<close>

theorem get_or_create_embedding_raises_on_stale_row:
  "get_or_create_embedding True ''m'' (\<lambda>t. Inr [1]) (\<lambda>j. ''[1.0]'') 5
       [\<lparr>emb_id = 1, emb_entity_type = ''job'', emb_entity_id = 7, emb_model = ''m'',
          emb_dim = 1,
          emb_text_hash = ''af15e96ef79be6742e87ec170fbca2ff7326b8de18509cbcbaca26f6dac536b0'',
          emb_vector_json = ''[1.0]'', emb_created_at = 1, emb_updated_at = 1\<rparr>,
        \<lparr>emb_id = 2, emb_entity_type = ''job'', emb_entity_id = 7, emb_model = ''m'',
          emb_dim = 1,
          emb_text_hash = ''40ee99aa0e0e0519586784aa2b8e1f80b2fc6e9d1608b6c028b59ee4f41e5936'',
          emb_vector_json = ''[0.5]'', emb_created_at = 2, emb_updated_at = 2\<rparr>]
       ''job'' 7 ''Python developer'' None
     = Inl IntegrityError
   \<and> distinct (map emb_id
       [\<lparr>emb_id = 1, emb_entity_type = ''job'', emb_entity_id = 7, emb_model = ''m'',
          emb_dim = 1,
          emb_text_hash = ''af15e96ef79be6742e87ec170fbca2ff7326b8de18509cbcbaca26f6dac536b0'',
          emb_vector_json = ''[1.0]'', emb_created_at = 1, emb_updated_at = 1\<rparr>,
        \<lparr>emb_id = 2, emb_entity_type = ''job'', emb_entity_id = 7, emb_model = ''m'',
          emb_dim = 1,
          emb_text_hash = ''40ee99aa0e0e0519586784aa2b8e1f80b2fc6e9d1608b6c028b59ee4f41e5936'',
          emb_vector_json = ''[0.5]'', emb_created_at = 2, emb_updated_at = 2\<rparr>])
   \<and> distinct (map (\<lambda>r. (emb_key r, emb_text_hash r))
       [\<lparr>emb_id = 1, emb_entity_type = ''job'', emb_entity_id = 7, emb_model = ''m'',
          emb_dim = 1,
          emb_text_hash = ''af15e96ef79be6742e87ec170fbca2ff7326b8de18509cbcbaca26f6dac536b0'',
          emb_vector_json = ''[1.0]'', emb_created_at = 1, emb_updated_at = 1\<rparr>,
        \<lparr>emb_id = 2, emb_entity_type = ''job'', emb_entity_id = 7, emb_model = ''m'',
          emb_dim = 1,
          emb_text_hash = ''40ee99aa0e0e0519586784aa2b8e1f80b2fc6e9d1608b6c028b59ee4f41e5936'',
          emb_vector_json = ''[0.5]'', emb_created_at = 2, emb_updated_at = 2\<rparr>])
   \<and> latest_embedding
       [\<lparr>emb_id = 1, emb_entity_type = ''job'', emb_entity_id = 7, emb_model = ''m'',
          emb_dim = 1,
          emb_text_hash = ''af15e96ef79be6742e87ec170fbca2ff7326b8de18509cbcbaca26f6dac536b0'',
          emb_vector_json = ''[1.0]'', emb_created_at = 1, emb_updated_at = 1\<rparr>,
        \<lparr>emb_id = 2, emb_entity_type = ''job'', emb_entity_id = 7, emb_model = ''m'',
          emb_dim = 1,
          emb_text_hash = ''40ee99aa0e0e0519586784aa2b8e1f80b2fc6e9d1608b6c028b59ee4f41e5936'',
          emb_vector_json = ''[0.5]'', emb_created_at = 2, emb_updated_at = 2\<rparr>]
       ''job'' 7 ''m''
     = Some \<lparr>emb_id = 2, emb_entity_type = ''job'', emb_entity_id = 7, emb_model = ''m'',
          emb_dim = 1,
          emb_text_hash = ''40ee99aa0e0e0519586784aa2b8e1f80b2fc6e9d1608b6c028b59ee4f41e5936'',
          emb_vector_json = ''[0.5]'', emb_created_at = 2, emb_updated_at = 2\<rparr>
   \<and> text_hash (normalize_text ''Python developer'') ''m''
     = ''af15e96ef79be6742e87ec170fbca2ff7326b8de18509cbcbaca26f6dac536b0''"
  by (simp add: get_or_create_embedding_def Let_def str_or_def latest_embedding_def
        emb_key_def newer_row_def unique_violation_def embed_text_def
        normalize_text_python_developer text_hash_python_developer)

section \<open>Properties of the skill normalisation\<close>

lemma fold_skill_step:
  "fold skill_step items (out, seen) =
     (out @ first_seen_ci seen (map skill_case (List.map_filter clean_skill items)),
      seen \<union> py_lower ` set (map skill_case (List.map_filter clean_skill items)))"
proof (induction items arbitrary: out seen)
  case Nil
  then show ?case by (simp add: List.map_filter_simps)
next
  case (Cons raw items)
  show ?case
  proof (cases "clean_skill raw")
    case None
    then have "skill_step raw (out, seen) = (out, seen)"
      by (simp add: skill_step_def)
    with None show ?thesis
      by (simp add: List.map_filter_simps Cons.IH)
  next
    case (Some s)
    show ?thesis
    proof (cases "py_lower (skill_case s) \<in> seen")
      case True
      with Some have "skill_step raw (out, seen) = (out, seen)"
        by (simp add: skill_step_def Let_def)
      with Some True show ?thesis
        by (auto simp: List.map_filter_simps Cons.IH)
    next
      case False
      with Some have "skill_step raw (out, seen)
          = (out @ [skill_case s], insert (py_lower (skill_case s)) seen)"
        by (simp add: skill_step_def Let_def)
      with Some False show ?thesis
        by (auto simp: List.map_filter_simps Cons.IH)
    qed
  qed
qed

lemma normalize_skills_first_seen:
  "normalize_skills items = first_seen_ci {} (map skill_case (List.map_filter clean_skill items))"
  by (simp add: normalize_skills_def fold_skill_step)

lemma first_seen_ci_subseq: "subseq (first_seen_ci seen xs) xs"
  by (induction xs arbitrary: seen) auto

lemma first_seen_ci_keys:
  "py_lower ` set (first_seen_ci seen xs) = py_lower ` set xs - seen"
  by (induction xs arbitrary: seen) auto

lemma first_seen_ci_distinct: "distinct (map py_lower (first_seen_ci seen xs))"
proof (induction xs arbitrary: seen)
  case Nil
  then show ?case by simp
next
  case (Cons x xs)
  have "py_lower x \<notin> py_lower ` set (first_seen_ci (insert (py_lower x) seen) xs)"
    unfolding first_seen_ci_keys by simp
  with Cons show ?case by simp
qed

lemma first_seen_ci_first:
  assumes "y \<in> set (first_seen_ci seen xs)"
  shows "\<exists>pre post. xs = pre @ y # post \<and> py_lower y \<notin> set (map py_lower pre)"
  using assms
proof (induction xs arbitrary: seen)
  case Nil
  then show ?case by simp
next
  case (Cons x xs)
  show ?case
  proof (cases "py_lower x \<notin> seen \<and> y = x")
    case True
    then have "x # xs = [] @ y # xs \<and> py_lower y \<notin> set (map py_lower [])"
      by simp
    then show ?thesis by blast
  next
    case False
    let ?seen' = "if py_lower x \<in> seen then seen else insert (py_lower x) seen"
    from Cons.prems False have mem: "y \<in> set (first_seen_ci ?seen' xs)"
      by (auto split: if_splits)
    from Cons.IH [OF mem] obtain pre post
      where split: "xs = pre @ y # post" and fresh: "py_lower y \<notin> set (map py_lower pre)"
      by blast
    have "py_lower y \<noteq> py_lower x"
    proof (cases "py_lower x \<in> seen")
      case True
      from mem have "py_lower y \<in> py_lower ` set (first_seen_ci ?seen' xs)" by blast
      then have "py_lower y \<notin> seen"
        unfolding first_seen_ci_keys using True by simp
      with True show ?thesis by auto
    next
      case False
      from mem have "py_lower y \<in> py_lower ` set (first_seen_ci ?seen' xs)" by blast
      then show ?thesis
        unfolding first_seen_ci_keys using False by auto
    qed
    with split fresh
    have "x # xs = (x # pre) @ y # post \<and> py_lower y \<notin> set (map py_lower (x # pre))"
      by simp
    then show ?thesis by blast
  qed
qed

lemma clean_skill_length:
  "clean_skill raw = Some s \<Longrightarrow> 2 \<le> length s \<and> length s \<le> 40"
  by (auto simp: clean_skill_def Let_def split: if_splits)

lemma of_char_lower_char_Latin:
  "is_ascii_lower (lower_char c) \<Longrightarrow> is_ascii_alpha c"
  by (auto simp: is_ascii_lower_def lower_char_def is_ascii_alpha_def is_ascii_upper_def Let_def
        split: if_splits)

lemma acronym_letters:
  assumes "py_lower s \<in> set known_acronyms"
  shows "s \<noteq> [] \<and> list_all is_ascii_alpha s"
proof -
  from assms have "py_lower s \<noteq> [] \<and> list_all is_ascii_lower (py_lower s)"
    by (auto simp: known_acronyms_def is_ascii_lower_def)
  then show ?thesis
    by (auto simp: py_lower_def list_all_iff dest: of_char_lower_char_Latin)
qed

lemma version_like_single_token:
  assumes "version_like s"
  shows "single_token s"
proof -
  define letters where "letters = takeWhile is_ascii_alpha s"
  define rest where "rest = dropWhile is_ascii_alpha s"
  define digits where "digits = takeWhile is_ascii_digit rest"
  define tail where "tail = dropWhile is_ascii_digit rest"
  have s: "s = letters @ digits @ tail"
    by (simp add: letters_def rest_def digits_def tail_def)
  from assms have ne: "letters \<noteq> []"
    and tl: "tail = [] \<or> (\<exists>ds. tail = CHR ''.'' # ds \<and> list_all is_ascii_digit ds)"
    by (auto simp: version_like_def Let_def letters_def rest_def digits_def tail_def
          split: list.splits)
  have l: "list_all is_word_char letters"
    by (auto simp: letters_def list_all_iff is_word_char_def dest: set_takeWhileD)
  have d: "list_all is_word_char digits"
    by (auto simp: digits_def list_all_iff is_word_char_def dest: set_takeWhileD)
  from tl have t: "list_all is_word_char tail"
    by (auto simp: list_all_iff is_word_char_def)
  from ne l d t show ?thesis
    unfolding single_token_def by (subst (1 2) s) simp
qed

lemma acronym_not_version_like:
  assumes "py_lower s \<in> set known_acronyms"
  shows "\<not> version_like s"
proof -
  from acronym_letters [OF assms] have dw: "dropWhile is_ascii_alpha s = []"
    by (simp add: list_all_iff)
  show ?thesis
    unfolding version_like_def Let_def dw by simp
qed

lemma isupper_upper_id: "py_isupper s \<Longrightarrow> py_upper s = s"
  by (auto simp: py_isupper_def py_upper_def upper_char_def list_ex_iff map_idI)

lemma skill_case_acronym:
  assumes "py_lower s \<in> set known_acronyms"
  shows "skill_case s = py_upper s"
proof -
  from acronym_letters [OF assms] have "single_token s"
    by (auto simp: single_token_def list_all_iff is_word_char_def)
  with assms acronym_not_version_like [OF assms] isupper_upper_id [of s] show ?thesis
    by (simp add: skill_case_def)
qed

text \<open>
  Claim C9, as amended.  A token that passes the cleaning has between 2 and 40
  characters.  It is emitted unchanged when it is all capitals or version-like;
  upper-cased when its lower-case form is one of api, apis, sql, aws, gcp, ml, ai, ci,
  cd; unchanged when it is any other single token of the characters
  \<^verbatim>\<open>[A-Za-z0-9+#.]\<close>; and otherwise, being several words and not all capitals, with
  each purely alphabetic word capitalised (first letter upper case, the others lower
  case) and every other word unchanged.  The result is the list of emitted forms with
  every form dropped whose lower-cased key has occurred before: it keeps, in order, the
  first emitted form of every lower-cased key and nothing else.
\<close>

theorem normalize_skills_casing_and_dedup:
  "(\<forall>raw t. clean_skill raw = Some t \<longrightarrow> 2 \<le> length t \<and> length t \<le> 40)
   \<and> (py_isupper s \<or> version_like s \<longrightarrow> skill_case s = s)
   \<and> (py_lower s \<in> set known_acronyms \<longrightarrow> skill_case s = py_upper s)
   \<and> (single_token s \<and> py_lower s \<notin> set known_acronyms \<longrightarrow> skill_case s = s)
   \<and> (\<not> single_token s \<and> \<not> py_isupper s \<longrightarrow>
        skill_case s = py_join '' '' (map (\<lambda>w. if py_isalpha w then py_capitalize w else w)
                                          (py_split (CHR '' '') s)))
   \<and> (let cased = map skill_case (List.map_filter clean_skill items)
      in normalize_skills items = first_seen_ci {} cased
         \<and> subseq (normalize_skills items) cased
         \<and> distinct (map py_lower (normalize_skills items))
         \<and> set (map py_lower (normalize_skills items)) = set (map py_lower cased)
         \<and> (\<forall>y \<in> set (normalize_skills items).
               \<exists>pre post. cased = pre @ y # post \<and> py_lower y \<notin> set (map py_lower pre)))"
proof (intro conjI allI impI)
  fix raw t
  assume "clean_skill raw = Some t"
  then show "2 \<le> length t" and "length t \<le> 40"
    using clean_skill_length by blast+
next
  assume "py_isupper s \<or> version_like s"
  then show "skill_case s = s"
    by (auto simp: skill_case_def)
next
  assume "py_lower s \<in> set known_acronyms"
  then show "skill_case s = py_upper s"
    by (rule skill_case_acronym)
next
  assume "single_token s \<and> py_lower s \<notin> set known_acronyms"
  then show "skill_case s = s"
    by (simp add: skill_case_def)
next
  assume h: "\<not> single_token s \<and> \<not> py_isupper s"
  with version_like_single_token [of s] have "\<not> version_like s" by blast
  with h show "skill_case s = py_join '' '' (map (\<lambda>w. if py_isalpha w then py_capitalize w else w)
      (py_split (CHR '' '') s))"
    by (simp add: skill_case_def)
next
  show "let cased = map skill_case (List.map_filter clean_skill items)
      in normalize_skills items = first_seen_ci {} cased
         \<and> subseq (normalize_skills items) cased
         \<and> distinct (map py_lower (normalize_skills items))
         \<and> set (map py_lower (normalize_skills items)) = set (map py_lower cased)
         \<and> (\<forall>y \<in> set (normalize_skills items).
               \<exists>pre post. cased = pre @ y # post \<and> py_lower y \<notin> set (map py_lower pre))"
    unfolding Let_def normalize_skills_first_seen
  proof (intro conjI ballI)
    let ?cased = "map skill_case (List.map_filter clean_skill items)"
    show "first_seen_ci {} ?cased = first_seen_ci {} ?cased"
      by (rule refl)
    show "subseq (first_seen_ci {} ?cased) ?cased"
      by (rule first_seen_ci_subseq)
    show "distinct (map py_lower (first_seen_ci {} ?cased))"
      by (rule first_seen_ci_distinct)
    show "set (map py_lower (first_seen_ci {} ?cased)) = set (map py_lower ?cased)"
      unfolding set_map [of py_lower] first_seen_ci_keys by simp
    fix y
    assume "y \<in> set (first_seen_ci {} ?cased)"
    then show "\<exists>pre post. ?cased = pre @ y # post \<and> py_lower y \<notin> set (map py_lower pre)"
      by (rule first_seen_ci_first)
  qed
qed

lemma normalize_skills_sample:
  "normalize_skills [''python'', ''  - SQL '', ''sql'', ''apis'', ''Py3'',
      ''machine   LEARNING'', ''node.js developer'', ''Python'', ''x'']
     = [''python'', ''SQL'', ''APIS'', ''Py3'', ''Machine Learning'', ''node.js Developer'']"
  by code_simp

theorem normalize_skills_casing_and_dedup_witness:
  "clean_skill ''  - SQL '' = Some ''SQL'' \<and> py_isupper ''SQL'' \<and> skill_case ''SQL'' = ''SQL''
   \<and> version_like ''Py3'' \<and> skill_case ''Py3'' = ''Py3''
   \<and> py_lower ''apis'' \<in> set known_acronyms \<and> skill_case ''apis'' = ''APIS''
   \<and> single_token ''python'' \<and> py_lower ''python'' \<notin> set known_acronyms
   \<and> skill_case ''python'' = ''python''
   \<and> \<not> single_token ''machine LEARNING'' \<and> \<not> py_isupper ''machine LEARNING''
   \<and> skill_case ''machine LEARNING'' = ''Machine Learning''
   \<and> normalize_skills [''python'', ''  - SQL '', ''sql'', ''apis'', ''Py3'',
        ''machine   LEARNING'', ''node.js developer'', ''Python'', ''x'']
       = [''python'', ''SQL'', ''APIS'', ''Py3'', ''Machine Learning'', ''node.js Developer'']
   \<and> distinct (map py_lower (normalize_skills [''python'', ''  - SQL '', ''sql'', ''apis'',
        ''Py3'', ''machine   LEARNING'', ''node.js developer'', ''Python'', ''x'']))"
proof -
  note inst = normalize_skills_casing_and_dedup [of "''machine LEARNING''"
      "[''python'', ''  - SQL '', ''sql'', ''apis'', ''Py3'', ''machine   LEARNING'',
        ''node.js developer'', ''Python'', ''x'']"]
  have facts: "clean_skill ''  - SQL '' = Some ''SQL''" "py_isupper ''SQL''"
    "skill_case ''SQL'' = ''SQL''" "version_like ''Py3''" "skill_case ''Py3'' = ''Py3''"
    "py_lower ''apis'' \<in> set known_acronyms" "skill_case ''apis'' = ''APIS''"
    "single_token ''python''" "py_lower ''python'' \<notin> set known_acronyms"
    "skill_case ''python'' = ''python''"
    "\<not> single_token ''machine LEARNING''" "\<not> py_isupper ''machine LEARNING''"
    "py_join '' '' (map (\<lambda>w. if py_isalpha w then py_capitalize w else w)
        (py_split (CHR '' '') ''machine LEARNING'')) = ''Machine Learning''"
    by code_simp+
  note multi = inst [THEN conjunct2, THEN conjunct2, THEN conjunct2, THEN conjunct2,
      THEN conjunct1]
  note dedup = inst [THEN conjunct2, THEN conjunct2, THEN conjunct2, THEN conjunct2,
      THEN conjunct2, unfolded Let_def, THEN conjunct2, THEN conjunct2, THEN conjunct1]
  from multi facts(11,12,13) have "skill_case ''machine LEARNING'' = ''Machine Learning''"
    by simp
  moreover from dedup have "distinct (map py_lower (normalize_skills [''python'', ''  - SQL '',
      ''sql'', ''apis'', ''Py3'', ''machine   LEARNING'', ''node.js developer'', ''Python'', ''x'']))"
    .
  ultimately show ?thesis
    using facts normalize_skills_sample by simp
qed

text \<open>
  A single lower-case word that is no acronym is emitted as it is, not title-cased:
  \<open>python\<close> stays \<open>python\<close>.
\<close>

theorem normalize_skills_keeps_single_token_case:
  "normalize_skills [''python''] = [''python''] \<and> normalize_skills [''python''] \<noteq> [''Python'']"
  by code_simp


section \<open>Properties of score\_application\<close>

lemma score_application_final_range:
  assumes "score_application loads repr job_title job_description job_required_skills
      resume_structured_json resume_ai_structured_json semantic_score ai_relevance_pct
    = Inr (skills_score, final_score, breakdown)"
  shows "0 \<le> final_score \<and> final_score \<le> 100"
proof -
  from assms obtain a b c d e where "compute_final_score a b c d e = Inr final_score"
    unfolding score_application_def bind_err_def Let_def
    by (auto split: sum.splits prod.splits)
  then show ?thesis by (rule compute_final_score_range)
qed

lemma score_application_ai_reasoning:
  assumes "score_application loads repr job_title job_description job_required_skills
      resume_structured_json resume_ai_structured_json semantic_score ai_relevance_pct
    = Inr (skills_score, final_score, breakdown)"
  shows "bd_ai_reasoning_score breakdown
    = (case ai_relevance_pct of
         None \<Rightarrow> Fin 0
       | Some p \<Rightarrow> rnd64 (real_of_int (max 0 (min 100 p)) / 100))"
  using assms unfolding score_application_def bind_err_def Let_def
  by (auto split: sum.splits prod.splits option.splits)

lemma compute_final_score_not_Inl:
  assumes "semantic_score \<noteq> NaN" "skills_score \<noteq> NaN" "experience_score \<noteq> NaN"
    "education_score \<noteq> NaN" "ai_reasoning_score \<noteq> NaN"
  shows "compute_final_score semantic_score skills_score experience_score education_score
      ai_reasoning_score \<noteq> Inl err"
  using compute_final_score_value [OF assms] by auto

text \<open>The call returns when the semantic score is not NaN and the extractions return.\<close>

lemma score_application_returns:
  assumes "semantic_score \<noteq> NaN"
    and "extract_resume_skills loads repr resume_structured_json resume_ai_structured_json
      = Inr resume_skills"
    and "extract_resume_experience_text loads repr resume_structured_json
      resume_ai_structured_json = Inr exp_text"
    and "extract_resume_education_text loads repr resume_structured_json
      resume_ai_structured_json = Inr edu_text"
  shows "\<exists>result. score_application loads repr job_title job_description job_required_skills
      resume_structured_json resume_ai_structured_json semantic_score ai_relevance_pct
    = Inr result"
  using assms
  by (auto simp: score_application_def bind_err_def Let_def compute_final_score_not_Inl
        rnd64_not_NaN split: prod.splits sum.splits option.splits)

text \<open>
  Claim C1, as amended.  The arithmetic of \<open>compute_final_score\<close> is that of binary64
  floats.  A component that is not NaN is clamped to the unit interval, an infinity to
  the nearer end.  When no component is NaN, the float \<^verbatim>\<open>val\<close>, one hundred times the
  sum of the products 0.10 semantic, 0.20 skills, 0.15 experience, 0.10 education and
  0.45 AI reasoning added from left to right with every product and sum rounded, is
  finite and within \<open>2^-35\<close> of one hundred times the exact weighted sum; the function
  returns \<^verbatim>\<open>round(val)\<close>, which already lies between 0 and 100 and is at most one away
  from the rounding of the exact value.  When a component is NaN the call raises
  \<^verbatim>\<open>ValueError\<close>.  A final score that \<open>score_application\<close> returns lies between 0 and
  100 and is computed from an AI relevance percentage cut to the range 0 to 100;
  \<open>score_application\<close> returns whenever its semantic score is not NaN and the three
  extractions return.
\<close>

theorem compute_final_score_weighted_clamped:
  "(\<forall>x. x \<noteq> NaN \<longrightarrow> clamp_unit (float_or_zero x) = Fin (spec_clamp_unit x)
            \<and> 0 \<le> spec_clamp_unit x \<and> spec_clamp_unit x \<le> 1)
   \<and> (semantic_score \<noteq> NaN \<and> skills_score \<noteq> NaN \<and> experience_score \<noteq> NaN
      \<and> education_score \<noteq> NaN \<and> ai_reasoning_score \<noteq> NaN
    \<longrightarrow> (\<exists>v. fl_mul (Fin 100)
          (fl_add
             (fl_add
                (fl_add
                   (fl_add (fl_mul (rnd64 (10 / 100)) (Fin (spec_clamp_unit semantic_score)))
                           (fl_mul (rnd64 (20 / 100)) (Fin (spec_clamp_unit skills_score))))
                   (fl_mul (rnd64 (15 / 100)) (Fin (spec_clamp_unit experience_score))))
                (fl_mul (rnd64 (10 / 100)) (Fin (spec_clamp_unit education_score))))
             (fl_mul (rnd64 (45 / 100)) (Fin (spec_clamp_unit ai_reasoning_score)))) = Fin v
          \<and> \<bar>v - 100 * spec_weighted_sum (spec_clamp_unit semantic_score)
                   (spec_clamp_unit skills_score) (spec_clamp_unit experience_score)
                   (spec_clamp_unit education_score) (spec_clamp_unit ai_reasoning_score)\<bar> \<le> 1 / 2 ^ 35
          \<and> compute_final_score semantic_score skills_score experience_score education_score
               ai_reasoning_score = Inr (py_round v)
          \<and> 0 \<le> py_round v \<and> py_round v \<le> 100
          \<and> \<bar>py_round v - py_round (100 * spec_weighted_sum (spec_clamp_unit semantic_score)
                   (spec_clamp_unit skills_score) (spec_clamp_unit experience_score)
                   (spec_clamp_unit education_score) (spec_clamp_unit ai_reasoning_score))\<bar> \<le> 1))
   \<and> (semantic_score = NaN \<or> skills_score = NaN \<or> experience_score = NaN
      \<or> education_score = NaN \<or> ai_reasoning_score = NaN
    \<longrightarrow> compute_final_score semantic_score skills_score experience_score education_score
          ai_reasoning_score = Inl ValueError)
   \<and> (score_application loads repr job_title job_description job_required_skills
          resume_structured_json resume_ai_structured_json semantic ai_relevance_pct
        = Inr (skills, final_score, breakdown)
      \<longrightarrow> 0 \<le> final_score \<and> final_score \<le> 100
          \<and> bd_ai_reasoning_score breakdown
              = (case ai_relevance_pct of
                   None \<Rightarrow> Fin 0
                 | Some p \<Rightarrow> rnd64 (real_of_int (max 0 (min 100 p)) / 100)))
   \<and> (semantic \<noteq> NaN
      \<and> extract_resume_skills loads repr resume_structured_json resume_ai_structured_json
          = Inr resume_skills
      \<and> extract_resume_experience_text loads repr resume_structured_json
          resume_ai_structured_json = Inr exp_text
      \<and> extract_resume_education_text loads repr resume_structured_json
          resume_ai_structured_json = Inr edu_text
    \<longrightarrow> (\<exists>result. score_application loads repr job_title job_description job_required_skills
          resume_structured_json resume_ai_structured_json semantic ai_relevance_pct
        = Inr result))"
proof -
  have a: "(\<forall>x. x \<noteq> NaN \<longrightarrow> clamp_unit (float_or_zero x) = Fin (spec_clamp_unit x)
            \<and> 0 \<le> spec_clamp_unit x \<and> spec_clamp_unit x \<le> 1)"
    using clamp_unit_value spec_clamp_unit_range by blast
  have b: "(semantic_score \<noteq> NaN \<and> skills_score \<noteq> NaN \<and> experience_score \<noteq> NaN
      \<and> education_score \<noteq> NaN \<and> ai_reasoning_score \<noteq> NaN
    \<longrightarrow> (\<exists>v. fl_mul (Fin 100)
          (fl_add
             (fl_add
                (fl_add
                   (fl_add (fl_mul (rnd64 (10 / 100)) (Fin (spec_clamp_unit semantic_score)))
                           (fl_mul (rnd64 (20 / 100)) (Fin (spec_clamp_unit skills_score))))
                   (fl_mul (rnd64 (15 / 100)) (Fin (spec_clamp_unit experience_score))))
                (fl_mul (rnd64 (10 / 100)) (Fin (spec_clamp_unit education_score))))
             (fl_mul (rnd64 (45 / 100)) (Fin (spec_clamp_unit ai_reasoning_score)))) = Fin v
          \<and> \<bar>v - 100 * spec_weighted_sum (spec_clamp_unit semantic_score)
                   (spec_clamp_unit skills_score) (spec_clamp_unit experience_score)
                   (spec_clamp_unit education_score) (spec_clamp_unit ai_reasoning_score)\<bar> \<le> 1 / 2 ^ 35
          \<and> compute_final_score semantic_score skills_score experience_score education_score
               ai_reasoning_score = Inr (py_round v)
          \<and> 0 \<le> py_round v \<and> py_round v \<le> 100
          \<and> \<bar>py_round v - py_round (100 * spec_weighted_sum (spec_clamp_unit semantic_score)
                   (spec_clamp_unit skills_score) (spec_clamp_unit experience_score)
                   (spec_clamp_unit education_score) (spec_clamp_unit ai_reasoning_score))\<bar> \<le> 1))"
    using compute_final_score_value
      [of semantic_score skills_score experience_score education_score ai_reasoning_score]
    by blast
  have c: "(semantic_score = NaN \<or> skills_score = NaN \<or> experience_score = NaN
      \<or> education_score = NaN \<or> ai_reasoning_score = NaN
    \<longrightarrow> compute_final_score semantic_score skills_score experience_score education_score
          ai_reasoning_score = Inl ValueError)"
    using compute_final_score_NaN
      [of semantic_score skills_score experience_score education_score ai_reasoning_score]
    by blast
  have d: "(score_application loads repr job_title job_description job_required_skills
          resume_structured_json resume_ai_structured_json semantic ai_relevance_pct
        = Inr (skills, final_score, breakdown)
      \<longrightarrow> 0 \<le> final_score \<and> final_score \<le> 100
          \<and> bd_ai_reasoning_score breakdown
              = (case ai_relevance_pct of
                   None \<Rightarrow> Fin 0
                 | Some p \<Rightarrow> rnd64 (real_of_int (max 0 (min 100 p)) / 100)))"
  proof
    assume h: "score_application loads repr job_title job_description job_required_skills
          resume_structured_json resume_ai_structured_json semantic ai_relevance_pct
        = Inr (skills, final_score, breakdown)"
    from score_application_final_range [OF h] score_application_ai_reasoning [OF h]
    show "0 \<le> final_score \<and> final_score \<le> 100
          \<and> bd_ai_reasoning_score breakdown
              = (case ai_relevance_pct of
                   None \<Rightarrow> Fin 0
                 | Some p \<Rightarrow> rnd64 (real_of_int (max 0 (min 100 p)) / 100))"
      by simp
  qed
  have e: "(semantic \<noteq> NaN
      \<and> extract_resume_skills loads repr resume_structured_json resume_ai_structured_json
          = Inr resume_skills
      \<and> extract_resume_experience_text loads repr resume_structured_json
          resume_ai_structured_json = Inr exp_text
      \<and> extract_resume_education_text loads repr resume_structured_json
          resume_ai_structured_json = Inr edu_text
    \<longrightarrow> (\<exists>result. score_application loads repr job_title job_description job_required_skills
          resume_structured_json resume_ai_structured_json semantic ai_relevance_pct
        = Inr result))"
    using score_application_returns
      [of semantic loads repr resume_structured_json resume_ai_structured_json resume_skills
          exp_text edu_text job_title job_description job_required_skills ai_relevance_pct]
    by blast
  show ?thesis
    by (rule conjI [OF a conjI [OF b conjI [OF c conjI [OF d e]]]])
qed

lemma sample_experience_score:
  "experience_relevance_score
     [''backend'', ''developer'', ''need'', ''python'', ''sql'', ''build'', ''api'', ''apis'']
     ''Built python backend services'' = 277 / 1500"
proof -
  have et: "py_strip (py_lower ''Built python backend services'') = ''built python backend services''"
    by code_simp
  have runs: "re_find_runs 2 is_word_char ''built python backend services''
      = [''built'', ''python'', ''backend'', ''services'']"
    by code_simp
  have toks: "collect_exp_tokens [''built'', ''python'', ''backend'', ''services''] {}
      = {''built'', ''python'', ''backend'', ''services''}"
    by (auto simp: Let_def py_strip_chars_def strip_where_def STOP_def)
  show ?thesis
    unfolding experience_relevance_score_def Let_def et runs toks
    by simp
qed

lemma sample_education_score:
  "education_relevance_score (Some ''Backend Developer'')
     (Some ''Need Python FastAPI SQL. Build REST APIs.'')
     ''B.Tech computer science\<newline>python course'' = 13 / 30"
proof -
  have edu: "py_strip (py_lower ''B.Tech computer science\<newline>python course'')
      = ''b.tech computer science\<newline>python course''"
    by code_simp
  have job: "py_lower (str_or (Some ''Backend Developer'') [] @ '' ''
        @ str_or (Some ''Need Python FastAPI SQL. Build REST APIs.'') [])
      = ''backend developer need python fastapi sql. build rest apis.''"
    by code_simp
  have degree: "length (filter (\<lambda>kw. py_contains kw ''b.tech computer science\<newline>python course'')
      degree_keywords) = 2"
    by code_simp
  have cert: "length (filter (\<lambda>kw. py_contains kw ''b.tech computer science\<newline>python course'')
      cert_keywords) = 1"
    by code_simp
  have stem: "length (filter (\<lambda>stem. py_contains stem ''b.tech computer science\<newline>python course''
        \<and> py_contains stem ''backend developer need python fastapi sql. build rest apis.'')
      stem_keywords) = 1"
    by code_simp
  show ?thesis
    unfolding education_relevance_score_def Let_def edu job degree cert stem
    by simp
qed

lemma sample_final_score:
  "compute_final_score (Fin (- 1)) (rnd64 (1 / 5)) (rnd64 (277 / 1500)) (rnd64 (13 / 30))
     (Fin 1) = Inr 56"
proof -
  have in1: "rnd64 (1 / 5) = Fin (3602879701896397 / 18014398509481984)"
    by (subst rnd64_in_binade [of "- 3"]) (simp_all add: pow2_def py_round_def Let_def)
  have in2: "rnd64 (277 / 1500) = Fin (6653317849502013 / 36028797018963968)"
    by (subst rnd64_in_binade [of "- 3"]) (simp_all add: pow2_def py_round_def Let_def)
  have in3: "rnd64 (13 / 30) = Fin (1951559838527215 / 4503599627370496)"
    by (subst rnd64_in_binade [of "- 2"]) (simp_all add: pow2_def py_round_def Let_def)
  have cl0: "clamp_unit (float_or_zero (Fin (- 1))) = Fin 0"
    by (simp add: clamp_unit_def float_or_zero_def fl_truthy_def Let_def)
  have cl1: "clamp_unit (float_or_zero (Fin (3602879701896397 / 18014398509481984))) = Fin (3602879701896397 / 18014398509481984)"
    by (simp add: clamp_unit_def float_or_zero_def fl_truthy_def Let_def)
  have cl2: "clamp_unit (float_or_zero (Fin (6653317849502013 / 36028797018963968))) = Fin (6653317849502013 / 36028797018963968)"
    by (simp add: clamp_unit_def float_or_zero_def fl_truthy_def Let_def)
  have cl3: "clamp_unit (float_or_zero (Fin (1951559838527215 / 4503599627370496))) = Fin (1951559838527215 / 4503599627370496)"
    by (simp add: clamp_unit_def float_or_zero_def fl_truthy_def Let_def)
  have cl4: "clamp_unit (float_or_zero (Fin 1)) = Fin 1"
    by (simp add: clamp_unit_def float_or_zero_def fl_truthy_def Let_def)
  have w0: "rnd64 (10 / 100) = Fin (3602879701896397 / 36028797018963968)"
    by (subst rnd64_in_binade [of "- 4"]) (simp_all add: pow2_def py_round_def Let_def)
  have w1: "rnd64 (20 / 100) = Fin (3602879701896397 / 18014398509481984)"
    by (subst rnd64_in_binade [of "- 3"]) (simp_all add: pow2_def py_round_def Let_def)
  have w2: "rnd64 (15 / 100) = Fin (5404319552844595 / 36028797018963968)"
    by (subst rnd64_in_binade [of "- 3"]) (simp_all add: pow2_def py_round_def Let_def)
  have w4: "rnd64 (45 / 100) = Fin (8106479329266893 / 18014398509481984)"
    by (subst rnd64_in_binade [of "- 2"]) (simp_all add: pow2_def py_round_def Let_def)
  have p0: "fl_mul (Fin (3602879701896397 / 36028797018963968)) (Fin 0) = Fin 0"
    by (simp add: rnd64_def)
  have p1: "fl_mul (Fin (3602879701896397 / 18014398509481984)) (Fin (3602879701896397 / 18014398509481984)) = Fin (1441151880758559 / 36028797018963968)"
    by (simp only: fl_mul.simps, subst rnd64_in_binade [of "- 5"]) (simp_all add: pow2_def py_round_def Let_def)
  have p2: "fl_mul (Fin (5404319552844595 / 36028797018963968)) (Fin (6653317849502013 / 36028797018963968)) = Fin (7983981419402415 / 288230376151711744)"
    by (simp only: fl_mul.simps, subst rnd64_in_binade [of "- 6"]) (simp_all add: pow2_def py_round_def Let_def)
  have p3: "fl_mul (Fin (3602879701896397 / 36028797018963968)) (Fin (1951559838527215 / 4503599627370496)) = Fin (390311967705443 / 9007199254740992)"
    by (simp only: fl_mul.simps, subst rnd64_in_binade [of "- 5"]) (simp_all add: pow2_def py_round_def Let_def)
  have p4: "fl_mul (Fin (8106479329266893 / 18014398509481984)) (Fin 1) = Fin (8106479329266893 / 18014398509481984)"
    by (simp only: fl_mul.simps, subst rnd64_in_binade [of "- 2"]) (simp_all add: pow2_def py_round_def Let_def)
  have s1: "fl_add (Fin 0) (Fin (1441151880758559 / 36028797018963968)) = Fin (1441151880758559 / 36028797018963968)"
    by (simp only: fl_add.simps, subst rnd64_in_binade [of "- 5"]) (simp_all add: pow2_def py_round_def Let_def)
  have s2: "fl_add (Fin (1441151880758559 / 36028797018963968)) (Fin (7983981419402415 / 288230376151711744)) = Fin (2439149558183861 / 36028797018963968)"
    by (simp only: fl_add.simps, subst rnd64_in_binade [of "- 4"]) (simp_all add: pow2_def py_round_def Let_def)
  have s3: "fl_add (Fin (2439149558183861 / 36028797018963968)) (Fin (390311967705443 / 9007199254740992)) = Fin (4000397429005633 / 36028797018963968)"
    by (simp only: fl_add.simps, subst rnd64_in_binade [of "- 4"]) (simp_all add: pow2_def py_round_def Let_def)
  have s4: "fl_add (Fin (4000397429005633 / 36028797018963968)) (Fin (8106479329266893 / 18014398509481984)) = Fin (5053339021884855 / 9007199254740992)"
    by (simp only: fl_add.simps, subst rnd64_in_binade [of "- 1"]) (simp_all add: pow2_def py_round_def Let_def)
  have val: "fl_mul (Fin 100) (Fin (5053339021884855 / 9007199254740992)) = Fin (3947921110847543 / 70368744177664)"
    by (simp only: fl_mul.simps, subst rnd64_in_binade [of "5"]) (simp_all add: pow2_def py_round_def Let_def)
  show ?thesis
    unfolding compute_final_score_def Let_def in1 in2 in3 cl0 cl1 cl2 cl3 cl4 w0 w1 w2 w4 p0 p1 p2 p3 p4 s1 s2 s3 s4 val
    by (simp add: py_round_float_def py_round_def Let_def)
qed

lemma score_application_sample:
  "score_application (\<lambda>s. Some sample_resume) (\<lambda>j. []) (Some ''Backend Developer'')
       (Some ''Need Python FastAPI SQL. Build REST APIs.'') None (Some ''{}'') None (Fin (- 1))
       (Some 150)
     = Inr (1 / 5, 56,
        \<lparr>bd_weights = [(''ai_reasoning'', 0.45), (''skills'', 0.20), (''experience'', 0.15),
                       (''education'', 0.10), (''semantic'', 0.10)],
         bd_semantic_score = Fin (- 1), bd_skills_score = 1 / 5,
         bd_experience_score = 277 / 1500, bd_education_score = 13 / 30,
         bd_ai_reasoning_score = Fin 1, bd_ai_relevance_score = Fin 1,
         bd_matched_skills = [''python''],
         bd_missing_skills = [''backend'', ''developer'', ''need'', ''sql'', ''build'', ''api'', ''apis''],
         bd_notes = []\<rparr>)"
proof -
  have resume_skills: "extract_resume_skills (\<lambda>s. Some sample_resume) (\<lambda>j. []) (Some ''{}'') None
      = Inr [''python'', ''aws'']"
    by code_simp
  have job_skills: "extract_job_skill_tokens (Some ''Backend Developer'')
        (Some ''Need Python FastAPI SQL. Build REST APIs.'') None
      = [''backend'', ''developer'', ''need'', ''python'', ''sql'', ''build'', ''api'', ''apis'']"
    by code_simp
  have overlap: "skills_overlap_score [''python'', ''aws'']
        [''backend'', ''developer'', ''need'', ''python'', ''sql'', ''build'', ''api'', ''apis'']
      = (1 / 5, [''python''], [''backend'', ''developer'', ''need'', ''sql'', ''build'', ''api'', ''apis''])"
    by (simp add: skills_overlap_score_def Let_def)
  have exp_text: "extract_resume_experience_text (\<lambda>s. Some sample_resume) (\<lambda>j. []) (Some ''{}'') None
      = Inr ''Built python backend services''"
    by code_simp
  have edu_text: "extract_resume_education_text (\<lambda>s. Some sample_resume) (\<lambda>j. []) (Some ''{}'') None
      = Inr ''B.Tech computer science\<newline>python course''"
    by code_simp
  have one: "rnd64 1 = Fin 1"
    by (subst rnd64_in_binade [of "0"]) (simp_all add: pow2_def py_round_def Let_def)
  show ?thesis
    by (simp add: score_application_def resume_skills job_skills Let_def bind_err_def overlap
          exp_text edu_text sample_experience_score sample_education_score sample_final_score
          one str_falsy_def)
qed

lemma adversarial_final_score:
  "compute_final_score (Fin (- 3)) (Fin 7) (Fin (1 / 2)) (rnd64 (3 / 10)) (Fin (3 / 2)) = Inr 76"
proof -
  have in3: "rnd64 (3 / 10) = Fin (5404319552844595 / 18014398509481984)"
    by (subst rnd64_in_binade [of "- 2"]) (simp_all add: pow2_def py_round_def Let_def)
  have cl0: "clamp_unit (float_or_zero (Fin (- 3))) = Fin 0"
    by (simp add: clamp_unit_def float_or_zero_def fl_truthy_def Let_def)
  have cl1: "clamp_unit (float_or_zero (Fin 7)) = Fin 1"
    by (simp add: clamp_unit_def float_or_zero_def fl_truthy_def Let_def)
  have cl2: "clamp_unit (float_or_zero (Fin (1 / 2))) = Fin (1 / 2)"
    by (simp add: clamp_unit_def float_or_zero_def fl_truthy_def Let_def)
  have cl3: "clamp_unit (float_or_zero (Fin (5404319552844595 / 18014398509481984))) = Fin (5404319552844595 / 18014398509481984)"
    by (simp add: clamp_unit_def float_or_zero_def fl_truthy_def Let_def)
  have cl4: "clamp_unit (float_or_zero (Fin (3 / 2))) = Fin 1"
    by (simp add: clamp_unit_def float_or_zero_def fl_truthy_def Let_def)
  have w0: "rnd64 (10 / 100) = Fin (3602879701896397 / 36028797018963968)"
    by (subst rnd64_in_binade [of "- 4"]) (simp_all add: pow2_def py_round_def Let_def)
  have w1: "rnd64 (20 / 100) = Fin (3602879701896397 / 18014398509481984)"
    by (subst rnd64_in_binade [of "- 3"]) (simp_all add: pow2_def py_round_def Let_def)
  have w2: "rnd64 (15 / 100) = Fin (5404319552844595 / 36028797018963968)"
    by (subst rnd64_in_binade [of "- 3"]) (simp_all add: pow2_def py_round_def Let_def)
  have w4: "rnd64 (45 / 100) = Fin (8106479329266893 / 18014398509481984)"
    by (subst rnd64_in_binade [of "- 2"]) (simp_all add: pow2_def py_round_def Let_def)
  have p0: "fl_mul (Fin (3602879701896397 / 36028797018963968)) (Fin 0) = Fin 0"
    by (simp add: rnd64_def)
  have p1: "fl_mul (Fin (3602879701896397 / 18014398509481984)) (Fin 1) = Fin (3602879701896397 / 18014398509481984)"
    by (simp only: fl_mul.simps, subst rnd64_in_binade [of "- 3"]) (simp_all add: pow2_def py_round_def Let_def)
  have p2: "fl_mul (Fin (5404319552844595 / 36028797018963968)) (Fin (1 / 2)) = Fin (5404319552844595 / 72057594037927936)"
    by (simp only: fl_mul.simps, subst rnd64_in_binade [of "- 4"]) (simp_all add: pow2_def py_round_def Let_def)
  have p3: "fl_mul (Fin (3602879701896397 / 36028797018963968)) (Fin (5404319552844595 / 18014398509481984)) = Fin (1080863910568919 / 36028797018963968)"
    by (simp only: fl_mul.simps, subst rnd64_in_binade [of "- 6"]) (simp_all add: pow2_def py_round_def Let_def)
  have p4: "fl_mul (Fin (8106479329266893 / 18014398509481984)) (Fin 1) = Fin (8106479329266893 / 18014398509481984)"
    by (simp only: fl_mul.simps, subst rnd64_in_binade [of "- 2"]) (simp_all add: pow2_def py_round_def Let_def)
  have s1: "fl_add (Fin 0) (Fin (3602879701896397 / 18014398509481984)) = Fin (3602879701896397 / 18014398509481984)"
    by (simp only: fl_add.simps, subst rnd64_in_binade [of "- 3"]) (simp_all add: pow2_def py_round_def Let_def)
  have s2: "fl_add (Fin (3602879701896397 / 18014398509481984)) (Fin (5404319552844595 / 72057594037927936)) = Fin (2476979795053773 / 9007199254740992)"
    by (simp only: fl_add.simps, subst rnd64_in_binade [of "- 2"]) (simp_all add: pow2_def py_round_def Let_def)
  have s3: "fl_add (Fin (2476979795053773 / 9007199254740992)) (Fin (1080863910568919 / 36028797018963968)) = Fin (2747195772696003 / 9007199254740992)"
    by (simp only: fl_add.simps, subst rnd64_in_binade [of "- 2"]) (simp_all add: pow2_def py_round_def Let_def)
  have s4: "fl_add (Fin (2747195772696003 / 9007199254740992)) (Fin (8106479329266893 / 18014398509481984)) = Fin (3400217718664725 / 4503599627370496)"
    by (simp only: fl_add.simps, subst rnd64_in_binade [of "- 1"]) (simp_all add: pow2_def py_round_def Let_def)
  have val: "fl_mul (Fin 100) (Fin (3400217718664725 / 4503599627370496)) = Fin (5312840185413633 / 70368744177664)"
    by (simp only: fl_mul.simps, subst rnd64_in_binade [of "6"]) (simp_all add: pow2_def py_round_def Let_def)
  show ?thesis
    unfolding compute_final_score_def Let_def in3 cl0 cl1 cl2 cl3 cl4 w0 w1 w2 w4 p0 p1 p2 p3 p4 s1 s2 s3 s4 val
    by (simp add: py_round_float_def py_round_def Let_def)
qed

theorem compute_final_score_adversarial_witness:
  "compute_final_score (Fin (- 3)) (Fin 7) (Fin (1 / 2)) (rnd64 (3 / 10)) (Fin (3 / 2)) = Inr 76
   \<and> (\<exists>v. compute_final_score (Fin (- 3)) (Fin 7) (Fin (1 / 2)) (rnd64 (3 / 10)) (Fin (3 / 2)) = Inr (py_round v)
          \<and> 0 \<le> py_round v \<and> py_round v \<le> 100)
   \<and> score_application (\<lambda>s. Some sample_resume) (\<lambda>j. []) (Some ''Backend Developer'')
       (Some ''Need Python FastAPI SQL. Build REST APIs.'') None (Some ''{}'') None (Fin (- 1))
       (Some 150)
     = Inr (1 / 5, 56,
        \<lparr>bd_weights = [(''ai_reasoning'', 0.45), (''skills'', 0.20), (''experience'', 0.15),
                       (''education'', 0.10), (''semantic'', 0.10)],
         bd_semantic_score = Fin (- 1), bd_skills_score = 1 / 5,
         bd_experience_score = 277 / 1500, bd_education_score = 13 / 30,
         bd_ai_reasoning_score = Fin 1, bd_ai_relevance_score = Fin 1,
         bd_matched_skills = [''python''],
         bd_missing_skills = [''backend'', ''developer'', ''need'', ''sql'', ''build'', ''api'', ''apis''],
         bd_notes = []\<rparr>)
   \<and> (0 :: int) \<le> 56 \<and> (56 :: int) \<le> 100
   \<and> rnd64 (real_of_int (max 0 (min 100 150)) / 100) = Fin 1"
proof -
  note inst = compute_final_score_weighted_clamped [of "Fin (- 3)" "Fin 7" "Fin (1 / 2)"
      "rnd64 (3 / 10)" "Fin (3 / 2)"
      "\<lambda>s. Some sample_resume" "\<lambda>j. []" "Some ''Backend Developer''"
      "Some ''Need Python FastAPI SQL. Build REST APIs.''" None "Some ''{}''" None "Fin (- 1)"
      "Some 150" "1 / 5" 56
      "\<lparr>bd_weights = [(''ai_reasoning'', 0.45), (''skills'', 0.20), (''experience'', 0.15),
                       (''education'', 0.10), (''semantic'', 0.10)],
         bd_semantic_score = Fin (- 1), bd_skills_score = 1 / 5,
         bd_experience_score = 277 / 1500, bd_education_score = 13 / 30,
         bd_ai_reasoning_score = Fin 1, bd_ai_relevance_score = Fin 1,
         bd_matched_skills = [''python''],
         bd_missing_skills = [''backend'', ''developer'', ''need'', ''sql'', ''build'', ''api'', ''apis''],
         bd_notes = []\<rparr>"]
  have nonan: "Fin (- 3) \<noteq> NaN \<and> Fin 7 \<noteq> NaN \<and> Fin (1 / 2) \<noteq> NaN \<and> rnd64 (3 / 10) \<noteq> NaN
      \<and> Fin (3 / 2) \<noteq> NaN"
    by (simp add: rnd64_not_NaN)
  from inst [THEN conjunct2, THEN conjunct1, THEN mp, OF nonan]
  have v: "\<exists>v. compute_final_score (Fin (- 3)) (Fin 7) (Fin (1 / 2)) (rnd64 (3 / 10)) (Fin (3 / 2)) = Inr (py_round v)
          \<and> 0 \<le> py_round v \<and> py_round v \<le> 100"
    by blast
  from inst [THEN conjunct2, THEN conjunct2, THEN conjunct2, THEN conjunct1, THEN mp,
      OF score_application_sample]
  have app: "(0 :: int) \<le> 56 \<and> (56 :: int) \<le> 100
      \<and> rnd64 (real_of_int (max 0 (min 100 150)) / 100) = Fin 1"
    by simp
  from adversarial_final_score v score_application_sample app show ?thesis by blast
qed

text \<open>
  The claim as first worded fails for a NaN component, where the call raises instead of
  returning a score; and with the components 0, 1, 0, 0 and 0.5 the function returns 43,
  while the rounding of one hundred times the exact weighted sum, 42.5, is 42.
\<close>

theorem compute_final_score_raises_on_nan:
  "compute_final_score NaN (Fin 0) (Fin 0) (Fin 0) (Fin 0) = Inl ValueError
   \<and> compute_final_score (Fin 0) (Fin 1) (Fin 0) (Fin 0) (Fin (1 / 2)) = Inr 43
   \<and> py_round (100 * spec_weighted_sum 0 1 0 0 (1 / 2)) = 42"
proof -
  have nan: "compute_final_score NaN (Fin 0) (Fin 0) (Fin 0) (Fin 0) = Inl ValueError"
    by (simp add: compute_final_score_def Let_def clamp_unit_NaN fl_mul_NaN_right
          py_round_float_def)
  have tie: "compute_final_score (Fin 0) (Fin 1) (Fin 0) (Fin 0) (Fin (1 / 2)) = Inr 43"
  proof -
    have cl0: "clamp_unit (float_or_zero (Fin 0)) = Fin 0"
      by (simp add: clamp_unit_def float_or_zero_def fl_truthy_def Let_def)
    have cl1: "clamp_unit (float_or_zero (Fin 1)) = Fin 1"
      by (simp add: clamp_unit_def float_or_zero_def fl_truthy_def Let_def)
    have cl4: "clamp_unit (float_or_zero (Fin (1 / 2))) = Fin (1 / 2)"
      by (simp add: clamp_unit_def float_or_zero_def fl_truthy_def Let_def)
    have w0: "rnd64 (10 / 100) = Fin (3602879701896397 / 36028797018963968)"
      by (subst rnd64_in_binade [of "- 4"]) (simp_all add: pow2_def py_round_def Let_def)
    have w1: "rnd64 (20 / 100) = Fin (3602879701896397 / 18014398509481984)"
      by (subst rnd64_in_binade [of "- 3"]) (simp_all add: pow2_def py_round_def Let_def)
    have w2: "rnd64 (15 / 100) = Fin (5404319552844595 / 36028797018963968)"
      by (subst rnd64_in_binade [of "- 3"]) (simp_all add: pow2_def py_round_def Let_def)
    have w4: "rnd64 (45 / 100) = Fin (8106479329266893 / 18014398509481984)"
      by (subst rnd64_in_binade [of "- 2"]) (simp_all add: pow2_def py_round_def Let_def)
    have p0: "fl_mul (Fin (3602879701896397 / 36028797018963968)) (Fin 0) = Fin 0"
      by (simp add: rnd64_def)
    have p1: "fl_mul (Fin (3602879701896397 / 18014398509481984)) (Fin 1) = Fin (3602879701896397 / 18014398509481984)"
      by (simp only: fl_mul.simps, subst rnd64_in_binade [of "- 3"]) (simp_all add: pow2_def py_round_def Let_def)
    have p2: "fl_mul (Fin (5404319552844595 / 36028797018963968)) (Fin 0) = Fin 0"
      by (simp add: rnd64_def)
    have p4: "fl_mul (Fin (8106479329266893 / 18014398509481984)) (Fin (1 / 2)) = Fin (8106479329266893 / 36028797018963968)"
      by (simp only: fl_mul.simps, subst rnd64_in_binade [of "- 3"]) (simp_all add: pow2_def py_round_def Let_def)
    have s1: "fl_add (Fin 0) (Fin (3602879701896397 / 18014398509481984)) = Fin (3602879701896397 / 18014398509481984)"
      by (simp only: fl_add.simps, subst rnd64_in_binade [of "- 3"]) (simp_all add: pow2_def py_round_def Let_def)
    have s2: "fl_add (Fin (3602879701896397 / 18014398509481984)) (Fin 0) = Fin (3602879701896397 / 18014398509481984)"
      by (simp only: fl_add.simps, subst rnd64_in_binade [of "- 3"]) (simp_all add: pow2_def py_round_def Let_def)
    have s4: "fl_add (Fin (3602879701896397 / 18014398509481984)) (Fin (8106479329266893 / 36028797018963968)) = Fin (1914029841632461 / 4503599627370496)"
      by (simp only: fl_add.simps, subst rnd64_in_binade [of "- 2"]) (simp_all add: pow2_def py_round_def Let_def)
    have val: "fl_mul (Fin 100) (Fin (1914029841632461 / 4503599627370496)) = Fin (5981343255101441 / 140737488355328)"
      by (simp only: fl_mul.simps, subst rnd64_in_binade [of "5"]) (simp_all add: pow2_def py_round_def Let_def)
    show ?thesis
      unfolding compute_final_score_def Let_def cl0 cl1 cl4 w0 w1 w2 w4 p0 p1 p2 p4 s1 s2 s4 val
      by (simp add: py_round_float_def py_round_def Let_def)
  qed
  have exact: "py_round (100 * spec_weighted_sum 0 1 0 0 (1 / 2)) = 42"
    by (simp add: spec_weighted_sum_def py_round_def Let_def)
  from nan tie exact show ?thesis by blast
qed

lemma extraction_empty_on_invalid_json:
  assumes "loads (select_raw structured_json ai_structured_json) = None"
  shows "extract_resume_skills loads repr structured_json ai_structured_json = Inr []
    \<and> extract_resume_experience_text loads repr structured_json ai_structured_json = Inr []
    \<and> extract_resume_education_text loads repr structured_json ai_structured_json = Inr []"
  using assms
  by (simp add: extract_resume_skills_def extract_resume_experience_text_def
        extract_resume_education_text_def extract_section_text_def Let_def)

lemma score_application_completes_on_invalid_json:
  assumes "loads (select_raw resume_structured_json resume_ai_structured_json) = None"
    and "semantic_score \<noteq> NaN"
  shows "\<exists>result. score_application loads repr job_title job_description job_required_skills
      resume_structured_json resume_ai_structured_json semantic_score ai_relevance_pct = Inr result"
proof -
  from assms(1)
    extraction_empty_on_invalid_json [of loads resume_structured_json resume_ai_structured_json repr]
  have "extract_resume_skills loads repr resume_structured_json resume_ai_structured_json = Inr []"
    and "extract_resume_experience_text loads repr resume_structured_json
      resume_ai_structured_json = Inr []"
    and "extract_resume_education_text loads repr resume_structured_json
      resume_ai_structured_json = Inr []"
    by blast+
  from score_application_returns [OF assms(2) this] show ?thesis .
qed

text \<open>
  Claim C10, at an input where the code departs from it.  A resume whose structured JSON
  is the list \<^verbatim>\<open>[1]\<close> is valid JSON without the expected structure.
  \<^verbatim>\<open>payload or {}\<close> keeps the non-empty list, and \<^verbatim>\<open>.get\<close> on it raises
  \<^verbatim>\<open>AttributeError\<close>, which none of the three extraction functions catches; so
  \<open>score_application\<close> ends with that exception too.
\<close>

theorem extraction_raises_on_json_list:
  "extract_resume_skills (\<lambda>s. if s = ''[1]'' then Some (JArr [JInt 1]) else None) (\<lambda>j. [])
       (Some ''[1]'') None = Inl AttributeError
   \<and> extract_resume_experience_text (\<lambda>s. if s = ''[1]'' then Some (JArr [JInt 1]) else None)
       (\<lambda>j. []) (Some ''[1]'') None = Inl AttributeError
   \<and> extract_resume_education_text (\<lambda>s. if s = ''[1]'' then Some (JArr [JInt 1]) else None)
       (\<lambda>j. []) (Some ''[1]'') None = Inl AttributeError
   \<and> score_application (\<lambda>s. if s = ''[1]'' then Some (JArr [JInt 1]) else None) (\<lambda>j. [])
       (Some ''Backend Developer'') (Some ''Need Python FastAPI SQL'') None
       (Some ''[1]'') None (Fin (1 / 2)) None = Inl AttributeError"
  by (simp add: extract_resume_skills_def extract_resume_experience_text_def
        extract_resume_education_text_def extract_section_text_def score_application_def
        select_raw_def str_or_def json_or_def py_truthy_def json_get_def bind_err_def)

end
